theory Spec2Isabelle
  imports Complex_Main "HOL-Library.Sublist"
begin

section \<open>Python values and built-ins used by the two programs\<close>

text \<open>
  Both source files handle loosely typed data: the bodies of HTTP responses decoded by
  \<^verbatim>\<open>response.json()\<close>, and the \<^verbatim>\<open>input_data\<close> dictionary of the email service.
  A decoded value is \<^verbatim>\<open>None\<close>, a \<^verbatim>\<open>bool\<close>, an \<^verbatim>\<open>int\<close>, a \<^verbatim>\<open>float\<close> (a finite
  one is given by its exact rational value, an overflowing literal such as \<^verbatim>\<open>1e400\<close> decodes
  to an infinity, \<open>JInf True\<close> being the positive one), a \<^verbatim>\<open>str\<close>, a \<^verbatim>\<open>list\<close> or a
  \<^verbatim>\<open>dict\<close>. A \<^verbatim>\<open>dict\<close> keeps its insertion order, so it is an association list; the
  decoder never produces a repeated key. The non-standard literal \<^verbatim>\<open>NaN\<close> is not part of
  the model. Strings are ASCII.
\<close>

datatype json =
    JNull
  | JBool bool
  | JInt int
  | JFloat rat
  | JInf bool
  | JStr string
  | JArr "json list"
  | JObj "(string \<times> json) list"

text \<open>The exceptions the two programs can meet. \<open>RequestException\<close> stands for the
  transport failures of \<^verbatim>\<open>requests\<close> (connection error, timeout) and carries their text;
  \<open>HTTPError\<close> is what \<^verbatim>\<open>raise_for_status\<close> raises and carries the status code;
  \<open>Exception\<close> is an exception of a library the programs call, with its text.\<close>

datatype exn =
    RequestException string
  | HTTPError nat
  | JSONDecodeError
  | KeyError json
  | IndexError
  | TypeError
  | ValueError
  | OverflowError
  | AttributeError
  | EOFError
  | Exception string

fun bind_exn :: "exn + 'a \<Rightarrow> ('a \<Rightarrow> exn + 'b) \<Rightarrow> exn + 'b" where
  "bind_exn (Inl e) f = Inl e"
| "bind_exn (Inr x) f = f x"

text \<open>Truth value testing: \<^verbatim>\<open>if x:\<close>, \<^verbatim>\<open>not x\<close>, \<^verbatim>\<open>x or y\<close>.\<close>

fun truthy :: "json \<Rightarrow> bool" where
  "truthy JNull = False"
| "truthy (JBool b) = b"
| "truthy (JInt i) = (i \<noteq> 0)"
| "truthy (JFloat r) = (r \<noteq> 0)"
| "truthy (JInf s) = True"
| "truthy (JStr s) = (s \<noteq> [])"
| "truthy (JArr xs) = (xs \<noteq> [])"
| "truthy (JObj kvs) = (kvs \<noteq> [])"

definition py_or :: "json \<Rightarrow> json \<Rightarrow> json" where
  "py_or a b = (if truthy a then a else b)"

text \<open>Python's \<^verbatim>\<open>==\<close> on decoded values: \<^verbatim>\<open>True == 1 == 1.0\<close>, an \<^verbatim>\<open>int\<close> and a
  \<^verbatim>\<open>float\<close> are compared by exact value, lists elementwise, dictionaries regardless of
  order. \<^verbatim>\<open>x != y\<close> is its negation.\<close>

fun num_value :: "json \<Rightarrow> rat option" where
  "num_value (JBool b) = Some (if b then 1 else 0)"
| "num_value (JInt i) = Some (of_int i)"
| "num_value (JFloat r) = Some r"
| "num_value _ = None"

fun py_eq :: "json \<Rightarrow> json \<Rightarrow> bool"
  and py_eq_list :: "json list \<Rightarrow> json list \<Rightarrow> bool"
  and py_eq_items :: "(string \<times> json) list \<Rightarrow> (string \<times> json) list \<Rightarrow> bool" where
  "py_eq JNull y = (y = JNull)"
| "py_eq (JBool b) y = (num_value y = Some (if b then 1 else 0))"
| "py_eq (JInt i) y = (num_value y = Some (of_int i))"
| "py_eq (JFloat r) y = (num_value y = Some r)"
| "py_eq (JInf s) y = (y = JInf s)"
| "py_eq (JStr s) y = (y = JStr s)"
| "py_eq (JArr xs) y = (case y of JArr ys \<Rightarrow> py_eq_list xs ys | _ \<Rightarrow> False)"
| "py_eq (JObj kvs) y =
     (case y of JObj kvs' \<Rightarrow> length kvs = length kvs' \<and> py_eq_items kvs kvs' | _ \<Rightarrow> False)"
| "py_eq_list [] ys = (ys = [])"
| "py_eq_list (x # xs) ys =
     (case ys of [] \<Rightarrow> False | y # ys' \<Rightarrow> py_eq x y \<and> py_eq_list xs ys')"
| "py_eq_items [] kvs' = True"
| "py_eq_items ((k, v) # kvs) kvs' =
     ((case map_of kvs' k of None \<Rightarrow> False | Some v' \<Rightarrow> py_eq v v') \<and> py_eq_items kvs kvs')"

text \<open>\<^verbatim>\<open>d[key]\<close> with a string key: only a dictionary can be subscripted that way.\<close>

fun subscript :: "json \<Rightarrow> string \<Rightarrow> exn + json" where
  "subscript (JObj kvs) k =
     (case map_of kvs k of None \<Rightarrow> Inl (KeyError (JStr k)) | Some v \<Rightarrow> Inr v)"
| "subscript _ k = Inl TypeError"

text \<open>\<^verbatim>\<open>x[0]\<close>: the first element of a list, the first character of a string; a decoded
  dictionary has string keys only, so \<^verbatim>\<open>0\<close> is never one of them.\<close>

fun subscript0 :: "json \<Rightarrow> exn + json" where
  "subscript0 (JArr []) = Inl IndexError"
| "subscript0 (JArr (x # xs)) = Inr x"
| "subscript0 (JStr []) = Inl IndexError"
| "subscript0 (JStr (c # cs)) = Inr (JStr [c])"
| "subscript0 (JObj kvs) = Inl (KeyError (JInt 0))"
| "subscript0 _ = Inl TypeError"

text \<open>\<^verbatim>\<open>x[:32]\<close>: strings and lists can be sliced, nothing else.\<close>

fun slice32 :: "json \<Rightarrow> exn + json" where
  "slice32 (JStr s) = Inr (JStr (take 32 s))"
| "slice32 (JArr xs) = Inr (JArr (take 32 xs))"
| "slice32 _ = Inl TypeError"

text \<open>\<^verbatim>\<open>d.get(key, default)\<close>: only a dictionary has the method.\<close>

fun py_get :: "json \<Rightarrow> string \<Rightarrow> json \<Rightarrow> exn + json" where
  "py_get (JObj kvs) k dflt = Inr (case map_of kvs k of None \<Rightarrow> dflt | Some v \<Rightarrow> v)"
| "py_get _ k dflt = Inl AttributeError"

text \<open>\<^verbatim>\<open>str.strip()\<close> and the whitespace that \<^verbatim>\<open>int()\<close> skips: the ASCII characters for which
  \<^verbatim>\<open>str.isspace\<close> holds (tab to carriage return, the four separators, the space).\<close>

definition is_space :: "char \<Rightarrow> bool" where
  "is_space c = (let n = (of_char c :: nat) in (9 \<le> n \<and> n \<le> 13) \<or> (28 \<le> n \<and> n \<le> 32))"

definition strip :: "string \<Rightarrow> string" where
  "strip s = rev (dropWhile is_space (rev (dropWhile is_space s)))"

text \<open>\<^verbatim>\<open>int(x)\<close>. A string is stripped, may carry one sign, and is a run of decimal digits
  in which single underscores may separate digits; a float is truncated towards zero.\<close>

definition is_digit :: "char \<Rightarrow> bool" where
  "is_digit c = (let n = (of_char c :: nat) in 48 \<le> n \<and> n \<le> 57)"

fun digits :: "string \<Rightarrow> nat \<Rightarrow> bool \<Rightarrow> nat option" where
  "digits [] acc after_digit = (if after_digit then Some acc else None)"
| "digits (c # cs) acc after_digit =
     (if is_digit c then digits cs (10 * acc + (of_char c - 48)) True
      else if c = CHR ''_'' \<and> after_digit then digits cs acc False
      else None)"

definition int_of_string :: "string \<Rightarrow> exn + int" where
  "int_of_string s =
     (case strip s of
        [] \<Rightarrow> Inl ValueError
      | c # cs \<Rightarrow>
          if c = CHR ''-'' then
            (case digits cs 0 False of None \<Rightarrow> Inl ValueError | Some n \<Rightarrow> Inr (- int n))
          else if c = CHR ''+'' then
            (case digits cs 0 False of None \<Rightarrow> Inl ValueError | Some n \<Rightarrow> Inr (int n))
          else
            (case digits (c # cs) 0 False of None \<Rightarrow> Inl ValueError | Some n \<Rightarrow> Inr (int n)))"

fun py_int :: "json \<Rightarrow> exn + int" where
  "py_int (JInt i) = Inr i"
| "py_int (JBool b) = Inr (if b then 1 else 0)"
| "py_int (JFloat r) = Inr (if 0 \<le> r then \<lfloor>r\<rfloor> else \<lceil>r\<rceil>)"
| "py_int (JInf s) = Inl OverflowError"
| "py_int (JStr s) = int_of_string s"
| "py_int _ = Inl TypeError"

text \<open>\<^verbatim>\<open>n / 1_000_000\<close> on an \<^verbatim>\<open>int\<close> is true division: the result is the float nearest
  to the exact quotient, and \<^verbatim>\<open>OverflowError\<close> when that quotient rounds beyond the largest
  float, that is from \<open>2 ^ 1024 - 2 ^ 970\<close> on. The model keeps the exact quotient; the
  rounding to 53 bits is not represented.\<close>

definition true_div_million :: "int \<Rightarrow> exn + rat" where
  "true_div_million n =
     (if (2 ^ 1024 - 2 ^ 970) * 1000000 \<le> \<bar>n\<bar> then Inl OverflowError
      else Inr (of_int n / 1000000))"

text \<open>Text produced by an f-string or handed to \<^verbatim>\<open>print\<close>: literal parts and the values
  interpolated between them, kept as values rather than rendered.\<close>

datatype piece =
    Lit string
  | Val json
  | Exn exn
  | Secs nat
  | Amount rat
  | Now

type_synonym fstring = "piece list"

section \<open>The purchase script: \<^verbatim>\<open>test_real_purchase.py\<close>\<close>

subsection \<open>What the script reads\<close>

text \<open>
  \<open>main\<close> reads the process environment, three lines of standard input and the answers
  of two remote services. An HTTP call either raises without a response (\<open>Raises\<close>, with the
  exception's text) or returns a response, given by its status code, its body text and what
  \<^verbatim>\<open>response.json()\<close> makes of the body (\<open>None\<close> when the body does not decode). Poll number
  \<open>n\<close> of the status endpoint takes \<open>fst (status w n)\<close> milliseconds and has the outcome
  \<open>snd (status w n)\<close>.
\<close>

datatype http_result =
    Raises string
  | Response nat string "json option"

record world =
  environ :: "string \<Rightarrow> string option"
  stdin :: "string list"
  availability :: http_result
  start_job :: http_result
  purchase :: http_result
  status :: "nat \<Rightarrow> nat \<times> http_result"

definition getenv :: "world \<Rightarrow> string \<Rightarrow> string \<Rightarrow> string" where
  "getenv w name dflt = (case environ w name of None \<Rightarrow> dflt | Some v \<Rightarrow> v)"

definition AGENT_URL :: "world \<Rightarrow> string" where
  "AGENT_URL w = getenv w ''AGENT_API_URL'' ''https://emailagent-production-cc02.up.railway.app''"

definition PAYMENT_SERVICE_URL :: "world \<Rightarrow> string" where
  "PAYMENT_SERVICE_URL w =
     getenv w ''PAYMENT_SERVICE_URL''
       ''https://masumi-payment-service-production-8680.up.railway.app/api/v1''"

definition NETWORK :: "world \<Rightarrow> string" where
  "NETWORK w = getenv w ''NETWORK'' ''Preprod''"

text \<open>\<^verbatim>\<open>os.getenv(name)\<close> without a default, as it appears inside an f-string.\<close>

definition getenv_val :: "world \<Rightarrow> string \<Rightarrow> json" where
  "getenv_val w name = (case environ w name of None \<Rightarrow> JNull | Some v \<Rightarrow> JStr v)"

subsection \<open>What the script does\<close>

text \<open>
  A run is the list of its effects, in order: the HTTP requests it issues (endpoint, URL,
  JSON body or query parameters, headers), the lines it prints through \<^verbatim>\<open>print\<close> and the
  four \<^verbatim>\<open>print_*\<close> helpers, the prompts of \<^verbatim>\<open>input\<close>, the \<^verbatim>\<open>asyncio.sleep\<close> calls (in
  seconds), and an exception that leaves \<open>main\<close>. Colour codes, rules and blank lines are
  left out of the printed text.
\<close>

datatype endpoint = Availability | StartJob | Purchase | Status

datatype event =
    Request endpoint string json "(string \<times> string) list"
  | Print fstring
  | PrintHeader fstring
  | PrintSuccess fstring
  | PrintInfo fstring
  | PrintWarning fstring
  | PrintError fstring
  | Input fstring
  | Sleep nat
  | Uncaught exn

text \<open>\<^verbatim>\<open>response.raise_for_status()\<close> raises for the status codes 400 to 599.\<close>

definition http_error :: "nat \<Rightarrow> bool" where
  "http_error st = (400 \<le> st \<and> st < 600)"

text \<open>A call followed by \<^verbatim>\<open>raise_for_status()\<close>, and then by \<^verbatim>\<open>response.json()\<close>.\<close>

fun checked :: "http_result \<Rightarrow> exn + string \<times> json option" where
  "checked (Raises m) = Inl (RequestException m)"
| "checked (Response st txt js) = (if http_error st then Inl (HTTPError st) else Inr (txt, js))"

definition decoded :: "http_result \<Rightarrow> exn + json" where
  "decoded r =
     bind_exn (checked r) (\<lambda>(txt, js). case js of None \<Rightarrow> Inl JSONDecodeError | Some j \<Rightarrow> Inr j)"

subsubsection \<open>Step 2: the job and its payment details (lines 155 to 192)\<close>

record job =
  job_id :: json
  blockchain_id :: json
  amount_lovelace :: json
  amount_ada :: rat
  payment_details :: "(string \<times> json) list"

definition build_payment_details :: "world \<Rightarrow> json \<Rightarrow> json \<Rightarrow> exn + (string \<times> json) list" where
  "build_payment_details w job_data bid =
     bind_exn (subscript job_data ''input_hash'') (\<lambda>input_hash.
     bind_exn (subscript job_data ''sellerVKey'') (\<lambda>seller_vkey.
     bind_exn (subscript job_data ''agentIdentifier'') (\<lambda>agent_identifier.
     bind_exn (subscript job_data ''unlockTime'') (\<lambda>unlock_time.
     bind_exn (subscript job_data ''externalDisputeUnlockTime'') (\<lambda>dispute_time.
     bind_exn (subscript job_data ''submitResultTime'') (\<lambda>submit_time.
     bind_exn (subscript job_data ''payByTime'') (\<lambda>pay_by_time.
     bind_exn (subscript job_data ''identifierFromPurchaser'') (\<lambda>identifier.
     bind_exn (subscript job_data ''amounts'') (\<lambda>amounts.
     Inr [(''blockchainIdentifier'', bid),
          (''network'', JStr (NETWORK w)),
          (''inputHash'', input_hash),
          (''sellerVkey'', seller_vkey),
          (''agentIdentifier'', agent_identifier),
          (''paymentType'', JStr ''Web3CardanoV1''),
          (''unlockTime'', unlock_time),
          (''externalDisputeUnlockTime'', dispute_time),
          (''submitResultTime'', submit_time),
          (''payByTime'', pay_by_time),
          (''identifierFromPurchaser'', identifier),
          (''amounts'', amounts)])))))))))"

definition job_of :: "world \<Rightarrow> json \<Rightarrow> exn + job" where
  "job_of w job_data =
     bind_exn (subscript job_data ''job_id'') (\<lambda>jid.
     bind_exn (subscript job_data ''blockchainIdentifier'') (\<lambda>bid.
     bind_exn (subscript job_data ''amounts'') (\<lambda>amounts.
     bind_exn (subscript0 amounts) (\<lambda>first.
     bind_exn (subscript first ''amount'') (\<lambda>lovelace.
     bind_exn (py_int lovelace) (\<lambda>n.
     bind_exn (true_div_million n) (\<lambda>ada.
     bind_exn (build_payment_details w job_data bid) (\<lambda>details.
     Inr \<lparr>job_id = jid, blockchain_id = bid, amount_lovelace = lovelace,
          amount_ada = ada, payment_details = details\<rparr>))))))))"

definition explorer_url :: "world \<Rightarrow> json \<Rightarrow> fstring" where
  "explorer_url w x =
     (if NETWORK w = ''Preprod'' then [Lit ''https://preprod.cardanoscan.io/transaction/'', Val x]
      else [Lit ''https://cardanoscan.io/transaction/'', Val x])"

subsubsection \<open>Step 4: the monitoring loop (lines 252 to 295)\<close>

text \<open>
  Time is counted in milliseconds since \<^verbatim>\<open>start_time\<close>. The loop condition reads the
  clock at \<open>elapsed\<close>; the request then takes its duration, printing takes none and the
  sleep takes five seconds. The events of the loop carry the time at which they happen.
  \<^verbatim>\<open>status_data.get\<close> raises unless the decoded body is a dictionary.
\<close>

definition max_wait :: nat where
  "max_wait = 300000"

definition status_data_of :: "http_result \<Rightarrow> exn + (string \<times> json) list" where
  "status_data_of r =
     bind_exn (decoded r) (\<lambda>j. case j of JObj kvs \<Rightarrow> Inr kvs | _ \<Rightarrow> Inl AttributeError)"

definition dict_get :: "(string \<times> json) list \<Rightarrow> string \<Rightarrow> json" where
  "dict_get kvs k = (case map_of kvs k of None \<Rightarrow> JNull | Some v \<Rightarrow> v)"

definition status_line :: "nat \<Rightarrow> json \<Rightarrow> json \<Rightarrow> event" where
  "status_line now job_status payment_status =
     Print [Lit ''['', Secs (now div 1000), Lit ''s] Job: '', Val job_status,
            Lit '' | Payment: '', Val payment_status]"

definition status_request :: "world \<Rightarrow> json \<Rightarrow> event" where
  "status_request w jid = Request Status (AGENT_URL w @ ''/status'') (JObj [(''job_id'', jid)]) []"

function monitor_loop :: "world \<Rightarrow> json \<Rightarrow> nat \<Rightarrow> nat \<Rightarrow> json \<Rightarrow> (nat \<times> event) list" where
  "monitor_loop w jid n elapsed last_status =
     (if elapsed < max_wait then
        (elapsed, status_request w jid) #
        (let now = elapsed + fst (status w n) in
         case status_data_of (snd (status w n)) of
           Inl e \<Rightarrow>
             (now, PrintError [Lit ''Status check error: '', Exn e]) # (now, Sleep 5) #
             monitor_loop w jid (Suc n) (now + 5000) last_status
         | Inr status_data \<Rightarrow>
             (let job_status = dict_get status_data ''status'';
                  payment_status = dict_get status_data ''payment_status'';
                  changed = (\<not> py_eq job_status last_status)
              in (if changed then [(now, status_line now job_status payment_status)] else []) @
                 (if job_status = JStr ''completed'' then
                    (now, Print [Lit ''SERVICE COMPLETED!'']) #
                    (let result = dict_get status_data ''result''
                     in if truthy result
                        then [(now, PrintHeader [Lit ''Your AI Service Result'']),
                              (now, Print [Val result])]
                        else [])
                  else if job_status = JStr ''failed'' then
                    [(now, PrintError [Lit ''Service execution failed!'']),
                     (now, Print [Val (JObj status_data)])]
                  else
                    (now, Sleep 5) #
                    monitor_loop w jid (Suc n) (now + 5000)
                      (if changed then job_status else last_status))))
      else [])"
  by pat_completeness auto
termination
  by (relation "measure (\<lambda>(w, jid, n, elapsed, last_status). max_wait - elapsed)") auto

declare monitor_loop.simps [simp del]

subsubsection \<open>Step 5: the summary (lines 297 to 327)\<close>

text \<open>The summary is printed however the loop ended. The two slices are outside every
  \<^verbatim>\<open>try\<close>: a value that cannot be sliced ends \<open>main\<close> with the exception.\<close>

definition summary_end :: "event list" where
  "summary_end =
     [Print [Lit ''YOUR WALLET: Test ADA was deducted from your wallet''],
      Print [Lit ''REAL BLOCKCHAIN TRANSACTION COMPLETE!''],
      PrintSuccess [Lit ''This was a REAL transaction on Cardano testnet!''],
      PrintInfo [Lit ''Check the Cardano explorer link above to verify on-chain'']]"

definition summary :: "world \<Rightarrow> job \<Rightarrow> json \<Rightarrow> event list" where
  "summary w j tx_hash =
     PrintHeader [Lit ''Transaction Summary''] #
     Print [Lit ''WHAT HAPPENED: Your testnet wallet address sent '', Amount (amount_ada j),
            Lit '' ADA; Transaction recorded on Cardano '', Lit (NETWORK w),
            Lit '' blockchain; Smart contract received and verified payment; '',
            Lit ''AI service executed your request; Result delivered to you; '',
            Lit ''Payment released to seller's wallet''] #
     Print [Lit ''BLOCKCHAIN VERIFICATION: Network: Cardano '', Lit (NETWORK w)] #
     (case slice32 (blockchain_id j) of
        Inl e \<Rightarrow> [Uncaught e]
      | Inr b \<Rightarrow>
          Print [Lit ''Smart Contract: '', Val b, Lit ''...''] #
          Print [Lit ''Amount: '', Amount (amount_ada j), Lit '' ADA''] #
          (if truthy tx_hash then
             (case slice32 tx_hash of
                Inl e \<Rightarrow> [Uncaught e]
              | Inr t \<Rightarrow>
                  Print [Lit ''Transaction: '', Val t, Lit ''...''] #
                  Print (Lit ''Explorer: '' # explorer_url w tx_hash) # summary_end)
           else summary_end))"

definition monitor :: "world \<Rightarrow> job \<Rightarrow> json \<Rightarrow> event list" where
  "monitor w j tx_hash =
     PrintHeader [Lit ''Step 4: Monitoring Blockchain & Service Execution''] #
     PrintInfo [Lit ''Waiting for blockchain confirmation...''] #
     PrintInfo [Lit ''This may take 20-60 seconds on Cardano testnet''] #
     map snd (monitor_loop w (job_id j) 0 0 JNull) @ summary w j tx_hash"

subsubsection \<open>Step 3: the payment (lines 194 to 243)\<close>

definition tx_hash_of :: "json \<Rightarrow> exn + json" where
  "tx_hash_of payment_result =
     bind_exn (py_get payment_result ''data'' (JObj [])) (\<lambda>d.
     bind_exn (py_get d ''txHash'' JNull) (\<lambda>a.
     if truthy a then Inr a
     else bind_exn (py_get payment_result ''data'' (JObj [])) (\<lambda>d'.
          py_get d' ''transactionHash'' JNull)))"

definition purchase_request :: "world \<Rightarrow> string \<Rightarrow> job \<Rightarrow> event" where
  "purchase_request w key j =
     Request Purchase (PAYMENT_SERVICE_URL w @ ''/purchase'') (JObj (payment_details j))
       [(''Content-Type'', ''application/json''), (''token'', key)]"

definition submit_payment :: "world \<Rightarrow> string \<Rightarrow> job \<Rightarrow> event list" where
  "submit_payment w key j =
     PrintHeader [Lit ''Step 3: Making Real Blockchain Payment from Your Wallet''] #
     PrintInfo [Lit ''Initiating payment from your testnet wallet...''] #
     PrintInfo [Lit ''Paying '', Amount (amount_ada j), Lit '' ADA to smart contract...''] #
     purchase_request w key j #
     (case purchase w of
        Raises m \<Rightarrow> [PrintError [Lit ''Payment error: '', Exn (RequestException m)]]
      | Response st txt js \<Rightarrow>
          if http_error st then
            [PrintError [Lit ''Payment failed: '', Exn (HTTPError st)],
             PrintError [Lit ''Response: '', Lit txt],
             PrintWarning [Lit ''Possible issues:''],
             Print [Lit ''  - Insufficient test ADA in wallet''],
             Print [Lit ''  - Wallet not registered properly''],
             Print [Lit ''  - Invalid API key'']]
          else
            (case js of
               None \<Rightarrow> [PrintError [Lit ''Payment error: '', Exn JSONDecodeError]]
             | Some payment_result \<Rightarrow>
                 Print [Lit ''PAYMENT TRANSACTION SUBMITTED!''] #
                 Print [Val payment_result] #
                 (case tx_hash_of payment_result of
                    Inl e \<Rightarrow> [PrintError [Lit ''Payment error: '', Exn e]]
                  | Inr tx_hash \<Rightarrow>
                      (if truthy tx_hash then
                         [PrintSuccess [Lit ''Transaction Hash: '', Val tx_hash],
                          PrintInfo (Lit ''View on Cardano Explorer: '' # explorer_url w tx_hash)]
                       else []) @
                      Print [Lit ''Your wallet has sent ADA on the Cardano blockchain!''] #
                      monitor w j tx_hash)))"

subsubsection \<open>Step 2: the job request (lines 134 to 192)\<close>

definition or_default :: "string \<Rightarrow> string \<Rightarrow> string" where
  "or_default line dflt = (if line = [] then dflt else line)"

definition start_job_payload :: "world \<Rightarrow> string \<Rightarrow> string \<Rightarrow> string \<Rightarrow> json" where
  "start_job_payload w recipient_email subject body =
     JObj [(''identifier_from_purchaser'',
              JStr (getenv w ''PURCHASER_IDENTIFIER'' ''2ccab9ca3c8fd56f'')),
           (''input_data'',
              JObj [(''recipient_email'', JStr recipient_email),
                    (''subject'', JStr subject),
                    (''body'', JStr body)])]"

definition request_job :: "world \<Rightarrow> string \<Rightarrow> string \<Rightarrow> string \<Rightarrow> string \<Rightarrow> event list" where
  "request_job w key recipient_email subject body =
     PrintInfo [Lit ''Requesting email to: '', Lit recipient_email, Lit '' with subject '',
                Lit subject] #
     Request StartJob (AGENT_URL w @ ''/start_job'')
       (start_job_payload w recipient_email subject body) [] #
     (case bind_exn (decoded (start_job w)) (job_of w) of
        Inl e \<Rightarrow> [PrintError [Lit ''Failed to create job: '', Exn e]]
      | Inr j \<Rightarrow>
          PrintSuccess [Lit ''Job Created: '', Val (job_id j)] #
          PrintSuccess [Lit ''Blockchain Contract: '', Val (blockchain_id j)] #
          PrintSuccess [Lit ''Payment Required: '', Amount (amount_ada j), Lit '' ADA ('',
                        Val (amount_lovelace j), Lit '' lovelace)''] #
          PrintInfo (Lit ''Track on explorer: '' # explorer_url w (blockchain_id j)) #
          submit_payment w key j)"

text \<open>The three \<^verbatim>\<open>input\<close> calls are outside every \<^verbatim>\<open>try\<close>: at the end of the input
  \<^verbatim>\<open>EOFError\<close> leaves \<open>main\<close>.\<close>

definition create_job :: "world \<Rightarrow> string \<Rightarrow> event list" where
  "create_job w key =
     PrintHeader [Lit ''Step 2: Creating Service Request with Payment''] #
     Input [Lit ''Recipient email (default: user@example.com): ''] #
     (case stdin w of
        [] \<Rightarrow> [Uncaught EOFError]
      | l1 # rest1 \<Rightarrow>
          Input [Lit ''Email subject (default: Test Email Subject): ''] #
          (case rest1 of
             [] \<Rightarrow> [Uncaught EOFError]
           | l2 # rest2 \<Rightarrow>
               Input [Lit ''Email body (default test body): ''] #
               (case rest2 of
                  [] \<Rightarrow> [Uncaught EOFError]
                | l3 # rest3 \<Rightarrow>
                    request_job w key
                      (or_default l1 ''user@example.com'')
                      (or_default l2 ''Test Email Subject'')
                      (or_default l3 ''This is a test email sent via Masumi-paid agent.''))))"

subsubsection \<open>Step 1: the availability check (lines 123 to 132)\<close>

definition check_availability :: "world \<Rightarrow> string \<Rightarrow> event list" where
  "check_availability w key =
     PrintHeader [Lit ''Step 1: Checking Service Availability''] #
     Request Availability (AGENT_URL w @ ''/availability'') JNull [] #
     (case checked (availability w) of
        Inl e \<Rightarrow>
          [PrintError [Lit ''Cannot connect to service: '', Exn e],
           PrintWarning [Lit ''Make sure to run: python main.py api'']]
      | Inr r \<Rightarrow> PrintSuccess [Lit ''AI Service is online and ready!''] # create_job w key)"

subsubsection \<open>\<open>main\<close> (lines 58 to 121)\<close>

definition setup_guidance :: "world \<Rightarrow> event list" where
  "setup_guidance w =
     [PrintHeader [Lit ''SETUP REQUIRED: Purchaser Wallet Configuration''],
      PrintWarning [Lit ''You need to set up a purchaser wallet first!''],
      Print [Lit ''Follow these steps:''],
      Print [Lit ''1. Get test ADA from the faucet''],
      Print [Lit ''2. Register your wallet as a purchaser in Masumi: curl -X POST '',
             Lit (PAYMENT_SERVICE_URL w), Lit ''/wallet -H token: '',
             Val (getenv_val w ''PAYMENT_API_KEY''), Lit '' network: '', Lit (NETWORK w)],
      Print [Lit ''3. Get the wallet details and API key: curl -X GET '',
             Lit (PAYMENT_SERVICE_URL w), Lit ''/wallet -H token: '',
             Val (getenv_val w ''PAYMENT_API_KEY'')],
      Print [Lit ''4. Create an API key for your purchaser wallet: curl -X POST '',
             Lit (PAYMENT_SERVICE_URL w), Lit ''/api-key -H token: '',
             Val (getenv_val w ''PAYMENT_API_KEY'')],
      Print [Lit ''5. Add to your .env file: PURCHASER_API_KEY, PURCHASER_WALLET_ADDRESS'']]"

definition main :: "world \<Rightarrow> event list" where
  "main w =
     Print [Lit ''REAL WALLET PURCHASE TEST - MASUMI NETWORK''] #
     PrintInfo [Lit ''Service URL: '', Lit (AGENT_URL w)] #
     PrintInfo [Lit ''Payment Service: '', Lit (PAYMENT_SERVICE_URL w)] #
     PrintInfo [Lit ''Network: '', Lit (NETWORK w)] #
     PrintInfo [Lit ''Timestamp: '', Now] #
     (case environ w ''PURCHASER_API_KEY'' of
        None \<Rightarrow> setup_guidance w
      | Some key \<Rightarrow>
          if key = [] then setup_guidance w
          else PrintSuccess [Lit ''Purchaser wallet configured!''] # check_availability w key)"

section \<open>The email service: \<^verbatim>\<open>emailService.py\<close>\<close>

subsection \<open>What the service depends on\<close>

text \<open>
  An \<^verbatim>\<open>EmailService\<close> object is its configuration, read from the environment by
  \<^verbatim>\<open>__init__\<close>, together with the behaviour of the libraries it calls:
  \<^item> \<open>langchain_available\<close>: the import at the top of the module succeeded, so
    \<^verbatim>\<open>ChatGoogleGenerativeAI\<close> and \<^verbatim>\<open>ChatPromptTemplate\<close> are not \<^verbatim>\<open>None\<close>;
  \<^item> \<open>chain_setup\<close>: \<open>Some m\<close> when building the model or the prompt raises, with text \<open>m\<close>;
  \<^item> \<open>llm\<close>: what \<^verbatim>\<open>chain.invoke\<close> does, given the joined key points, the subject and the
    body: it raises, or answers with a text, or with a content that is not a string;
  \<^item> \<open>json_loads\<close>: \<^verbatim>\<open>json.loads\<close>, \<open>None\<close> for \<^verbatim>\<open>JSONDecodeError\<close>;
  \<^item> \<open>send_transac_email\<close>: lines 218 to 232, given recipient, subject and text content: the
    provider call returns and the response has a message id, or \<^verbatim>\<open>ApiException\<close> is raised,
    or another exception.
\<close>

datatype llm_result =
    LlmRaises string
  | LlmText string
  | LlmOther

datatype send_result =
    Sent string
  | ApiException string
  | OtherException string

record service =
  has_logger :: bool
  langchain_available :: bool
  brevo_api_key :: string
  sender_email :: string
  gemini_api_key :: string
  chain_setup :: "string option"
  llm :: "string \<Rightarrow> json \<Rightarrow> json \<Rightarrow> llm_result"
  json_loads :: "string \<Rightarrow> json option"
  send_transac_email :: "json \<Rightarrow> json \<Rightarrow> json \<Rightarrow> send_result"

datatype log = LogInfo fstring | LogError fstring

text \<open>\<^verbatim>\<open>if self.logger: self.logger.info(...)\<close>\<close>

definition logged :: "service \<Rightarrow> log \<Rightarrow> log list" where
  "logged s l = (if has_logger s then [l] else [])"

subsection \<open>\<^verbatim>\<open>ServiceResult\<close> (lines 20 to 34)\<close>

record service_result =
  recipient :: json
  subject :: json
  success :: bool
  message :: fstring
  raw :: fstring
  json_dict :: "(string \<times> fstring) list"

definition ServiceResult :: "json \<Rightarrow> json \<Rightarrow> bool \<Rightarrow> fstring \<Rightarrow> service_result" where
  "ServiceResult rcp sbj ok msg =
     \<lparr>recipient = rcp, subject = sbj, success = ok, message = msg,
      raw = [Lit ''Email '', Lit (if ok then ''sent'' else ''failed''), Lit '' to '', Val rcp,
             Lit '': ''] @ msg,
      json_dict = [(''recipient'', [Val rcp]), (''subject'', [Val sbj]),
                   (''success'', [Val (JBool ok)]), (''message'', msg),
                   (''task'', [Lit ''send_email''])]\<rparr>"

subsection \<open>\<^verbatim>\<open>_enhance_email_with_gemini\<close> (lines 58 to 155)\<close>

text \<open>\<^verbatim>\<open>re.search(r"\{.*\}", text, re.DOTALL)\<close>: from the first opening brace to the last
  closing brace after it.\<close>

definition first_json_object :: "string \<Rightarrow> string option" where
  "first_json_object txt =
     (let from_open = dropWhile (\<lambda>c. c \<noteq> CHR ''{'') txt;
          up_to_close = rev (dropWhile (\<lambda>c. c \<noteq> CHR ''}'') (rev from_open))
      in if up_to_close = [] then None else Some up_to_close)"

text \<open>Lines 135 to 142: decode the text, or else the braces found in it; the inner
  \<^verbatim>\<open>raise\<close> and a second decoding failure both leave with \<^verbatim>\<open>JSONDecodeError\<close>.\<close>

definition load_data :: "service \<Rightarrow> string \<Rightarrow> exn + json" where
  "load_data s txt =
     (case json_loads s txt of
        Some d \<Rightarrow> Inr d
      | None \<Rightarrow>
          (case first_json_object txt of
             None \<Rightarrow> Inl JSONDecodeError
           | Some m \<Rightarrow> (case json_loads s m of Some d \<Rightarrow> Inr d | None \<Rightarrow> Inl JSONDecodeError)))"

text \<open>\<^verbatim>\<open>x.strip()\<close>: only a string has the method.\<close>

fun strip_value :: "json \<Rightarrow> exn + json" where
  "strip_value (JStr t) = Inr (JStr (strip t))"
| "strip_value _ = Inl AttributeError"

text \<open>\<^verbatim>\<open>"\n".join(keypoints)\<close> with \<^verbatim>\<open>keypoints = [subject, body]\<close>: both must be strings.\<close>

fun join_keypoints :: "json \<Rightarrow> json \<Rightarrow> exn + string" where
  "join_keypoints (JStr a) (JStr b) = Inr (a @ [CHR 0x0A] @ b)"
| "join_keypoints _ _ = Inl TypeError"

text \<open>The body of the \<^verbatim>\<open>try\<close>, lines 76 to 150.\<close>

definition enhanced :: "service \<Rightarrow> json \<Rightarrow> json \<Rightarrow> exn + json \<times> json" where
  "enhanced s original_subject original_body =
     (case chain_setup s of
        Some m \<Rightarrow> Inl (Exception m)
      | None \<Rightarrow>
          bind_exn (join_keypoints original_subject original_body) (\<lambda>keypoints.
          bind_exn (case llm s keypoints original_subject original_body of
                      LlmRaises m \<Rightarrow> Inl (Exception m)
                    | LlmOther \<Rightarrow> Inl TypeError
                    | LlmText txt \<Rightarrow> load_data s txt) (\<lambda>data.
          bind_exn (py_get data ''subject'' JNull) (\<lambda>data_subject.
          bind_exn (strip_value (py_or (py_or data_subject original_subject) (JStr []))) (\<lambda>new_subject.
          bind_exn (py_get data ''body'' JNull) (\<lambda>data_body.
          bind_exn (strip_value (py_or (py_or data_body original_body) (JStr []))) (\<lambda>new_body.
          Inr (new_subject, new_body))))))))"

definition enhance_email_with_gemini :: "service \<Rightarrow> json \<Rightarrow> json \<Rightarrow> log list \<times> json \<times> json" where
  "enhance_email_with_gemini s original_subject original_body =
     (if \<not> langchain_available s then
        (logged s (LogInfo [Lit ''LangChain / Gemini not installed; skipping email enhancement.'']),
         original_subject, original_body)
      else if gemini_api_key s = [] then
        (logged s (LogInfo [Lit ''GOOGLE_API_KEY not set; skipping email enhancement.'']),
         original_subject, original_body)
      else
        (case enhanced s original_subject original_body of
           Inl e \<Rightarrow>
             (logged s (LogInfo [Lit ''Enhancing email with Gemini from keypoints.'']) @
              logged s (LogError [Lit ''Gemini enhancement failed, using original subject/body: '',
                                  Exn e]),
              original_subject, original_body)
         | Inr (new_subject, new_body) \<Rightarrow>
             (logged s (LogInfo [Lit ''Enhancing email with Gemini from keypoints.'']) @
              logged s (LogInfo [Lit ''Gemini enhancement completed.'']),
              new_subject, new_body)))"

subsection \<open>\<^verbatim>\<open>execute_task\<close> (lines 157 to 248)\<close>

text \<open>\<^verbatim>\<open>input_data.get(key, "")\<close>\<close>

definition input_get :: "(string \<times> json) list \<Rightarrow> string \<Rightarrow> json" where
  "input_get input_data k = (case map_of input_data k of None \<Rightarrow> JStr [] | Some v \<Rightarrow> v)"

definition fail_with ::
  "service \<Rightarrow> log list \<Rightarrow> json \<Rightarrow> json \<Rightarrow> fstring \<Rightarrow> log list \<times> service_result" where
  "fail_with s logs rcp sbj error_msg =
     (logs @ logged s (LogError error_msg), ServiceResult rcp sbj False error_msg)"

definition execute_task :: "service \<Rightarrow> (string \<times> json) list \<Rightarrow> log list \<times> service_result" where
  "execute_task s input_data =
     (let recipient_email = input_get input_data ''recipient_email'';
          subject0 = input_get input_data ''subject'';
          body0 = input_get input_data ''body'';
          (enhance_logs, subject1, body1) = enhance_email_with_gemini s subject0 body0;
          logs = logged s (LogInfo [Lit ''Sending email to '', Val recipient_email,
                                    Lit '' with subject: '', Val subject0]) @ enhance_logs
      in if \<not> truthy recipient_email then
           fail_with s logs recipient_email subject1 [Lit ''recipient_email is required'']
         else if \<not> truthy subject1 then
           fail_with s logs recipient_email subject1 [Lit ''subject is required'']
         else if \<not> truthy body1 then
           fail_with s logs recipient_email subject1 [Lit ''body is required'']
         else if brevo_api_key s = [] then
           fail_with s logs recipient_email subject1
             [Lit ''Brevo API key not configured (BREVO_API_KEY missing)'']
         else if sender_email s = [] then
           fail_with s logs recipient_email subject1
             [Lit ''Sender email not configured (SENDER_EMAIL missing)'']
         else
           (case send_transac_email s recipient_email subject1 body1 of
              Sent message_id \<Rightarrow>
                (let success_msg = [Lit ''Email sent successfully to '', Val recipient_email,
                                    Lit '' (Message ID: '', Lit message_id, Lit '')'']
                 in (logs @ logged s (LogInfo success_msg),
                     ServiceResult recipient_email subject1 True success_msg))
            | ApiException m \<Rightarrow>
                fail_with s logs recipient_email subject1 [Lit ''Brevo API error: '', Lit m]
            | OtherException m \<Rightarrow>
                fail_with s logs recipient_email subject1 [Lit ''Error sending email: '', Lit m]))"

section \<open>Observations on a run\<close>

text \<open>The endpoints of the requests of a run, in the order in which they are issued.\<close>

fun endpoint_of :: "event \<Rightarrow> endpoint list" where
  "endpoint_of (Request ep url body hdrs) = [ep]"
| "endpoint_of _ = []"

definition endpoints :: "event list \<Rightarrow> endpoint list" where
  "endpoints evs = concat (map endpoint_of evs)"

text \<open>The printed lines of a run: everything but requests, prompts and sleeps.\<close>

fun is_printed :: "event \<Rightarrow> bool" where
  "is_printed (Request ep url body hdrs) = False"
| "is_printed (Input p) = False"
| "is_printed (Sleep n) = False"
| "is_printed _ = True"

definition printed :: "event list \<Rightarrow> event list" where
  "printed evs = filter is_printed evs"

text \<open>The status-change records of the monitoring loop are the lines built by
  \<open>status_line\<close>; no other printed line starts with a bracket.\<close>

fun is_status_line :: "event \<Rightarrow> bool" where
  "is_status_line (Print (Lit t # Secs n # rest)) = (t = ''['')"
| "is_status_line _ = False"

definition status_lines :: "(nat \<times> event) list \<Rightarrow> (nat \<times> event) list" where
  "status_lines tevs = filter (\<lambda>te. is_status_line (snd te)) tevs"

fun is_status_request :: "event \<Rightarrow> bool" where
  "is_status_request (Request ep url body hdrs) = (ep = Status)"
| "is_status_request _ = False"

definition polls :: "(nat \<times> event) list \<Rightarrow> (nat \<times> event) list" where
  "polls tevs = filter (\<lambda>te. is_status_request (snd te)) tevs"

text \<open>The clock reading at the loop condition that follows \<open>k\<close> polls, none of which ended
  the loop, when poll \<open>n\<close> was issued at \<open>elapsed\<close>.\<close>

fun after_polls :: "world \<Rightarrow> nat \<Rightarrow> nat \<Rightarrow> nat \<Rightarrow> nat" where
  "after_polls w n elapsed 0 = elapsed"
| "after_polls w n elapsed (Suc k) = after_polls w (Suc n) (elapsed + fst (status w n) + 5000) k"

section \<open>Example runs\<close>

text \<open>A job-creation response with the fields of the compute service's contract, for a
  price of 5000000 lovelace.\<close>

definition example_job_data :: json where
  "example_job_data =
     JObj [(''job_id'', JStr ''job-1''),
           (''blockchainIdentifier'', JStr ''contract-1''),
           (''input_hash'', JStr ''0a1b''),
           (''sellerVKey'', JStr ''vkey''),
           (''agentIdentifier'', JStr ''agent-7''),
           (''unlockTime'', JStr ''1700000300''),
           (''externalDisputeUnlockTime'', JStr ''1700000400''),
           (''submitResultTime'', JStr ''1700000200''),
           (''payByTime'', JStr ''1700000100''),
           (''identifierFromPurchaser'', JStr ''2ccab9ca3c8fd56f''),
           (''amounts'', JArr [JObj [(''amount'', JStr ''5000000''), (''unit'', JStr ''lovelace'')]])]"

definition example_job :: job where
  "example_job =
     \<lparr>job_id = JStr ''job-1'', blockchain_id = JStr ''contract-1'',
      amount_lovelace = JStr ''5000000'', amount_ada = 5,
      payment_details =
        [(''blockchainIdentifier'', JStr ''contract-1''),
         (''network'', JStr ''Preprod''),
         (''inputHash'', JStr ''0a1b''),
         (''sellerVkey'', JStr ''vkey''),
         (''agentIdentifier'', JStr ''agent-7''),
         (''paymentType'', JStr ''Web3CardanoV1''),
         (''unlockTime'', JStr ''1700000300''),
         (''externalDisputeUnlockTime'', JStr ''1700000400''),
         (''submitResultTime'', JStr ''1700000200''),
         (''payByTime'', JStr ''1700000100''),
         (''identifierFromPurchaser'', JStr ''2ccab9ca3c8fd56f''),
         (''amounts'', JArr [JObj [(''amount'', JStr ''5000000''), (''unit'', JStr ''lovelace'')]])]\<rparr>"

definition status_body :: "string \<Rightarrow> json" where
  "status_body st = JObj [(''status'', JStr st), (''payment_status'', JStr ''paid'')]"

text \<open>A run in which everything works: the purchaser key is set, the three prompts are
  answered with empty lines, the purchase returns a transaction hash, and the job is
  pending on the first two polls and completed on the third; every poll takes no time.\<close>

definition example_world :: world where
  "example_world =
     \<lparr>environ = (\<lambda>name. if name = ''PURCHASER_API_KEY'' then Some ''secret'' else None),
      stdin = [[], [], []],
      availability = Response 200 ''ok'' None,
      start_job = Response 200 [] (Some example_job_data),
      purchase = Response 200 [] (Some (JObj [(''data'', JObj [(''txHash'', JStr ''abc123'')])])),
      status = (\<lambda>n. (0, Response 200 []
                  (Some (if n < 2 then status_body ''pending''
                         else JObj [(''status'', JStr ''completed''),
                                    (''payment_status'', JStr ''paid''),
                                    (''result'', JStr ''sent'')]))))\<rparr>"

text \<open>The same run with a job that stays pending, and with a status endpoint that answers
  every poll with an empty object.\<close>

definition pending_world :: world where
  "pending_world = example_world\<lparr>status := (\<lambda>n. (0, Response 200 [] (Some (status_body ''pending''))))\<rparr>"

definition silent_world :: world where
  "silent_world = example_world\<lparr>status := (\<lambda>n. (0, Response 200 [] (Some (JObj []))))\<rparr>"



definition rejected_body :: string where
  \<open>rejected_body = ''{"message":"insufficient funds"}''\<close>

definition rejected_world :: world where
  "rejected_world = example_world\<lparr>purchase := Response 402 rejected_body None\<rparr>"

text \<open>The same run with a status endpoint whose first poll times out after ten seconds,
  with a job that has failed, and with a completed job whose result is the number 0.\<close>

definition flaky_world :: world where
  "flaky_world =
     example_world\<lparr>status := (\<lambda>n. if n = 0 then (10000, Raises ''Read timed out'')
                                   else (0, Response 200 [] (Some (status_body ''completed''))))\<rparr>"

definition failed_world :: world where
  "failed_world = example_world\<lparr>status := (\<lambda>n. (0, Response 200 [] (Some (status_body ''failed''))))\<rparr>"

definition zero_result_world :: world where
  "zero_result_world =
     example_world\<lparr>status := (\<lambda>n. (0, Response 200 []
        (Some (JObj [(''status'', JStr ''completed''), (''payment_status'', JStr ''paid''),
                     (''result'', JInt 0)]))))\<rparr>"

text \<open>A poll is non-terminal when it succeeds with a job status that is neither
  \<^verbatim>\<open>"completed"\<close> nor \<^verbatim>\<open>"failed"\<close>.\<close>

definition non_terminal :: "http_result \<Rightarrow> bool" where
  "non_terminal r =
     (case status_data_of r of
        Inl e \<Rightarrow> False
      | Inr sd \<Rightarrow> dict_get sd ''status'' \<noteq> JStr ''completed'' \<and>
                  dict_get sd ''status'' \<noteq> JStr ''failed'')"

text \<open>The subject and the body that \<open>execute_task\<close> goes on with after the enhancement
  step.\<close>

definition enhanced_subject :: "service \<Rightarrow> (string \<times> json) list \<Rightarrow> json" where
  "enhanced_subject s input_data =
     fst (snd (enhance_email_with_gemini s (input_get input_data ''subject'')
                 (input_get input_data ''body'')))"

definition enhanced_body :: "service \<Rightarrow> (string \<times> json) list \<Rightarrow> json" where
  "enhanced_body s input_data =
     snd (snd (enhance_email_with_gemini s (input_get input_data ''subject'')
                 (input_get input_data ''body'')))"

text \<open>Three email services: one without LangChain, one whose model answers with the JSON
  object asked for, and one whose model answers with a sentence; the provider accepts every
  email. And two inputs, the second without a subject.\<close>

definition plain_service :: service where
  "plain_service =
     \<lparr>has_logger = True, langchain_available = False, brevo_api_key = ''xkeysib-1'',
      sender_email = ''noreply@example.com'', gemini_api_key = [], chain_setup = None,
      llm = (\<lambda>keypoints sbj bdy. LlmRaises ''not configured''),
      json_loads = (\<lambda>txt. None),
      send_transac_email = (\<lambda>rcp sbj bdy. Sent ''<202611031200.1@smtp-relay>'')\<rparr>"

definition gemini_reply :: string where
  \<open>gemini_reply = ''{"subject": "Hello Bob", "body": "Dear Bob, see you on Monday."}''\<close>

definition gemini_service :: service where
  "gemini_service =
     plain_service\<lparr>langchain_available := True, gemini_api_key := ''AIza-1'',
       llm := (\<lambda>keypoints sbj bdy. LlmText gemini_reply),
       json_loads := (\<lambda>txt. if txt = gemini_reply
                             then Some (JObj [(''subject'', JStr ''Hello Bob''),
                                              (''body'', JStr ''Dear Bob, see you on Monday.'')])
                             else None)\<rparr>"

definition chatty_service :: service where
  "chatty_service =
     gemini_service\<lparr>llm := (\<lambda>keypoints sbj bdy. LlmText ''Sorry, I cannot help with that.'')\<rparr>"

definition alice_input :: "(string \<times> json) list" where
  "alice_input =
     [(''recipient_email'', JStr ''alice@example.com''), (''subject'', JStr ''Monday''),
      (''body'', JStr ''See you on Monday.'')]"

definition bob_input :: "(string \<times> json) list" where
  "bob_input =
     [(''recipient_email'', JStr ''bob@example.com''), (''body'', JStr ''Tell Bob about Monday'')]"

text \<open>A service whose provider rejects the API key.\<close>

definition bounced_service :: service where
  "bounced_service =
     plain_service\<lparr>send_transac_email := (\<lambda>rcp sbj bdy. ApiException ''(401) Unauthorized'')\<rparr>"

section \<open>Facts about the built-ins and the stages\<close>

lemma bind_exn_Inr: "bind_exn m f = Inr y \<longleftrightarrow> (\<exists>x. m = Inr x \<and> f x = Inr y)"
  by (cases m) auto




lemma request_job_created:
  assumes "decoded (start_job w) = Inr job_data" and "job_of w job_data = Inr j"
  shows "request_job w key r s b =
           [PrintInfo [Lit ''Requesting email to: '', Lit r, Lit '' with subject '', Lit s],
            Request StartJob (AGENT_URL w @ ''/start_job'') (start_job_payload w r s b) [],
            PrintSuccess [Lit ''Job Created: '', Val (job_id j)],
            PrintSuccess [Lit ''Blockchain Contract: '', Val (blockchain_id j)],
            PrintSuccess [Lit ''Payment Required: '', Amount (amount_ada j), Lit '' ADA ('',
                          Val (amount_lovelace j), Lit '' lovelace)''],
            PrintInfo (Lit ''Track on explorer: '' # explorer_url w (blockchain_id j))] @
           submit_payment w key j"
  using assms by (simp add: request_job_def)

lemma purchase_request_issued: "purchase_request w key j \<in> set (submit_payment w key j)"
  by (simp add: submit_payment_def)

lemma example_decoded: "decoded (start_job example_world) = Inr example_job_data"
  by (simp add: example_world_def decoded_def http_error_def)

lemma example_job_of: "job_of example_world example_job_data = Inr example_job"
  by (simp add: job_of_def build_payment_details_def example_job_data_def example_job_def
      example_world_def NETWORK_def getenv_def int_of_string_def strip_def is_space_def
      is_digit_def true_div_million_def)

section \<open>The displayed amount (C9)\<close>



section \<open>One iteration of the monitoring loop\<close>

lemma monitor_loop_deadline:
  "\<not> elapsed < max_wait \<Longrightarrow> monitor_loop w jid n elapsed prev = []"
  by (subst monitor_loop.simps) simp

lemma monitor_loop_error:
  assumes "elapsed < max_wait" and "status_data_of (snd (status w n)) = Inl e"
  shows "monitor_loop w jid n elapsed prev =
           (elapsed, status_request w jid) #
           (elapsed + fst (status w n), PrintError [Lit ''Status check error: '', Exn e]) #
           (elapsed + fst (status w n), Sleep 5) #
           monitor_loop w jid (Suc n) (elapsed + fst (status w n) + 5000) prev"
  using assms by (subst monitor_loop.simps) (simp add: Let_def)

lemma monitor_loop_completed:
  assumes "elapsed < max_wait" and "status_data_of (snd (status w n)) = Inr sd"
    and "dict_get sd ''status'' = JStr ''completed''"
  shows "monitor_loop w jid n elapsed prev =
           (elapsed, status_request w jid) #
           (if \<not> py_eq (JStr ''completed'') prev
            then [(elapsed + fst (status w n),
                   status_line (elapsed + fst (status w n)) (JStr ''completed'')
                     (dict_get sd ''payment_status''))]
            else []) @
           (elapsed + fst (status w n), Print [Lit ''SERVICE COMPLETED!'']) #
           (if truthy (dict_get sd ''result'')
            then [(elapsed + fst (status w n), PrintHeader [Lit ''Your AI Service Result'']),
                  (elapsed + fst (status w n), Print [Val (dict_get sd ''result'')])]
            else [])"
  using assms by (subst monitor_loop.simps) (simp add: Let_def)

lemma monitor_loop_failed:
  assumes "elapsed < max_wait" and "status_data_of (snd (status w n)) = Inr sd"
    and "dict_get sd ''status'' = JStr ''failed''"
  shows "monitor_loop w jid n elapsed prev =
           (elapsed, status_request w jid) #
           (if \<not> py_eq (JStr ''failed'') prev
            then [(elapsed + fst (status w n),
                   status_line (elapsed + fst (status w n)) (JStr ''failed'')
                     (dict_get sd ''payment_status''))]
            else []) @
           [(elapsed + fst (status w n), PrintError [Lit ''Service execution failed!'']),
            (elapsed + fst (status w n), Print [Val (JObj sd)])]"
  using assms by (subst monitor_loop.simps) (simp add: Let_def)

lemma monitor_loop_waiting:
  assumes "elapsed < max_wait" and "status_data_of (snd (status w n)) = Inr sd"
    and "dict_get sd ''status'' \<noteq> JStr ''completed''"
    and "dict_get sd ''status'' \<noteq> JStr ''failed''"
  shows "monitor_loop w jid n elapsed prev =
           (elapsed, status_request w jid) #
           (if \<not> py_eq (dict_get sd ''status'') prev
            then [(elapsed + fst (status w n),
                   status_line (elapsed + fst (status w n)) (dict_get sd ''status'')
                     (dict_get sd ''payment_status''))]
            else []) @
           (elapsed + fst (status w n), Sleep 5) #
           monitor_loop w jid (Suc n) (elapsed + fst (status w n) + 5000)
             (if \<not> py_eq (dict_get sd ''status'') prev then dict_get sd ''status'' else prev)"
  using assms by (subst monitor_loop.simps) (simp add: Let_def)

lemma monitor_loop_starts_with_poll:
  "elapsed < max_wait \<Longrightarrow> hd (monitor_loop w jid n elapsed prev) = (elapsed, status_request w jid)"
  by (subst monitor_loop.simps) simp

lemma is_status_line_simps [simp]:
  "is_status_line (status_line now js ps)"
  "\<not> is_status_line (status_request w jid)"
  by (simp_all add: status_line_def status_request_def)

lemma is_status_request_simps [simp]:
  "is_status_request (status_request w jid)"
  "\<not> is_status_request (status_line now js ps)"
  by (simp_all add: status_line_def status_request_def)

section \<open>A failed poll does not end the monitoring (C5)\<close>

text \<open>
  C5. When a status poll fails, because the request raises, or the response has an error
  status, or its body does not decode, or it decodes to something that is not an object,
  the loop prints the error, sleeps for the five seconds of the poll interval and goes on
  with the next poll, with the last observed status unchanged. The next poll is issued if
  and only if the clock is then still below \<open>max_wait\<close>: nothing but the deadline bounds
  the retries.
\<close>

theorem poll_error_is_retried:
  assumes "elapsed < max_wait" and "status_data_of (snd (status w n)) = Inl e"
  shows "monitor_loop w jid n elapsed prev =
           [(elapsed, status_request w jid),
            (elapsed + fst (status w n), PrintError [Lit ''Status check error: '', Exn e]),
            (elapsed + fst (status w n), Sleep 5)] @
           monitor_loop w jid (Suc n) (elapsed + fst (status w n) + 5000) prev \<and>
         (if elapsed + fst (status w n) + 5000 < max_wait
          then hd (monitor_loop w jid (Suc n) (elapsed + fst (status w n) + 5000) prev) =
                 (elapsed + fst (status w n) + 5000, status_request w jid)
          else monitor_loop w jid (Suc n) (elapsed + fst (status w n) + 5000) prev = [])"
  using monitor_loop_error [OF assms] monitor_loop_starts_with_poll monitor_loop_deadline
  by simp

theorem poll_error_is_retried_witness:
  "(0::nat) < max_wait \<and>
   status_data_of (snd (status flaky_world 0)) = Inl (RequestException ''Read timed out'') \<and>
   monitor_loop flaky_world (JStr ''job-1'') 0 0 JNull =
     [(0, status_request flaky_world (JStr ''job-1'')),
      (10000, PrintError [Lit ''Status check error: '',
                          Exn (RequestException ''Read timed out'')]),
      (10000, Sleep 5),
      (15000, status_request flaky_world (JStr ''job-1'')),
      (15000, status_line 15000 (JStr ''completed'') (JStr ''paid'')),
      (15000, Print [Lit ''SERVICE COMPLETED!''])]"
proof -
  have t: "(0::nat) < max_wait"
    by (simp add: max_wait_def)
  have e: "status_data_of (snd (status flaky_world 0)) = Inl (RequestException ''Read timed out'')"
    by (simp add: flaky_world_def example_world_def status_data_of_def decoded_def)
  have d: "fst (status flaky_world 0) = 10000" "fst (status flaky_world (Suc 0)) = 0"
    by (simp_all add: flaky_world_def example_world_def)
  have c: "status_data_of (snd (status flaky_world (Suc 0))) =
             Inr [(''status'', JStr ''completed''), (''payment_status'', JStr ''paid'')]"
    by (simp add: flaky_world_def example_world_def status_data_of_def decoded_def
        http_error_def status_body_def)
  have "monitor_loop flaky_world (JStr ''job-1'') (Suc 0) 15000 JNull =
          [(15000, status_request flaky_world (JStr ''job-1'')),
           (15000, status_line 15000 (JStr ''completed'') (JStr ''paid'')),
           (15000, Print [Lit ''SERVICE COMPLETED!''])]"
    by (simp add: monitor_loop_completed [OF _ c] d max_wait_def dict_get_def)
  with poll_error_is_retried [OF t e, of "JStr ''job-1''" JNull] t e d show ?thesis
    by simp
qed

section \<open>A terminal status ends the monitoring (C3)\<close>

text \<open>
  C3, as the claim states it, fails where it says that the result payload is emitted if
  present: the script tests \<^verbatim>\<open>if result:\<close>, so a result that is present but false in
  Python's sense (here the number 0) is not printed. The run below polls once, finds the
  job completed with \<^verbatim>\<open>"result": 0\<close>, and prints the status line and the completion
  line only.
\<close>

theorem falsy_result_not_emitted:
  "status_data_of (snd (status zero_result_world 0)) =
     Inr [(''status'', JStr ''completed''), (''payment_status'', JStr ''paid''),
          (''result'', JInt 0)] \<and>
   monitor_loop zero_result_world (JStr ''job-1'') 0 0 JNull =
     [(0, status_request zero_result_world (JStr ''job-1'')),
      (0, status_line 0 (JStr ''completed'') (JStr ''paid'')),
      (0, Print [Lit ''SERVICE COMPLETED!''])]"
proof -
  have c: "status_data_of (snd (status zero_result_world 0)) =
             Inr [(''status'', JStr ''completed''), (''payment_status'', JStr ''paid''),
                  (''result'', JInt 0)]"
    by (simp add: zero_result_world_def example_world_def status_data_of_def decoded_def
        http_error_def)
  have d: "fst (status zero_result_world 0) = 0"
    by (simp add: zero_result_world_def example_world_def)
  show ?thesis
    by (simp add: c monitor_loop_completed [OF _ c] d max_wait_def dict_get_def)
qed

text \<open>
  C3, amended. If a status poll returns a job status equal to \<^verbatim>\<open>"completed"\<close>, the loop
  prints the status line when the status differs from the last observed one, prints the
  completion line exactly once, prints the result if it is present and true in Python's
  sense (not \<^verbatim>\<open>None\<close>, \<^verbatim>\<open>False\<close>, zero or empty), and ends: the poll that returned the
  status is the only request. If the poll returns \<^verbatim>\<open>"failed"\<close>, the loop prints the failure
  line and the whole status payload, and ends in the same way.
\<close>

theorem terminal_status_ends_monitoring:
  assumes "elapsed < max_wait" and "status_data_of (snd (status w n)) = Inr sd"
  shows "(dict_get sd ''status'' = JStr ''completed'' \<longrightarrow>
            monitor_loop w jid n elapsed prev =
              (elapsed, status_request w jid) #
              (if \<not> py_eq (JStr ''completed'') prev
               then [(elapsed + fst (status w n),
                      status_line (elapsed + fst (status w n)) (JStr ''completed'')
                        (dict_get sd ''payment_status''))]
               else []) @
              (elapsed + fst (status w n), Print [Lit ''SERVICE COMPLETED!'']) #
              (if truthy (dict_get sd ''result'')
               then [(elapsed + fst (status w n), PrintHeader [Lit ''Your AI Service Result'']),
                     (elapsed + fst (status w n), Print [Val (dict_get sd ''result'')])]
               else []) \<and>
            polls (monitor_loop w jid n elapsed prev) = [(elapsed, status_request w jid)] \<and>
            length (filter (\<lambda>te. snd te = Print [Lit ''SERVICE COMPLETED!''])
                      (monitor_loop w jid n elapsed prev)) = 1) \<and>
         (dict_get sd ''status'' = JStr ''failed'' \<longrightarrow>
            monitor_loop w jid n elapsed prev =
              (elapsed, status_request w jid) #
              (if \<not> py_eq (JStr ''failed'') prev
               then [(elapsed + fst (status w n),
                      status_line (elapsed + fst (status w n)) (JStr ''failed'')
                        (dict_get sd ''payment_status''))]
               else []) @
              [(elapsed + fst (status w n), PrintError [Lit ''Service execution failed!'']),
               (elapsed + fst (status w n), Print [Val (JObj sd)])] \<and>
            polls (monitor_loop w jid n elapsed prev) = [(elapsed, status_request w jid)])"
proof (intro conjI impI)
  assume c: "dict_get sd ''status'' = JStr ''completed''"
  note eq = monitor_loop_completed [OF assms c, of jid prev]
  show "monitor_loop w jid n elapsed prev =
          (elapsed, status_request w jid) #
          (if \<not> py_eq (JStr ''completed'') prev
           then [(elapsed + fst (status w n),
                  status_line (elapsed + fst (status w n)) (JStr ''completed'')
                    (dict_get sd ''payment_status''))]
           else []) @
          (elapsed + fst (status w n), Print [Lit ''SERVICE COMPLETED!'']) #
          (if truthy (dict_get sd ''result'')
           then [(elapsed + fst (status w n), PrintHeader [Lit ''Your AI Service Result'']),
                 (elapsed + fst (status w n), Print [Val (dict_get sd ''result'')])]
           else [])"
    by (rule eq)
  show "polls (monitor_loop w jid n elapsed prev) = [(elapsed, status_request w jid)]"
    by (simp add: eq polls_def)
  show "length (filter (\<lambda>te. snd te = Print [Lit ''SERVICE COMPLETED!''])
                  (monitor_loop w jid n elapsed prev)) = 1"
    by (simp add: eq status_request_def status_line_def)
next
  assume f: "dict_get sd ''status'' = JStr ''failed''"
  note eq = monitor_loop_failed [OF assms f, of jid prev]
  show "monitor_loop w jid n elapsed prev =
          (elapsed, status_request w jid) #
          (if \<not> py_eq (JStr ''failed'') prev
           then [(elapsed + fst (status w n),
                  status_line (elapsed + fst (status w n)) (JStr ''failed'')
                    (dict_get sd ''payment_status''))]
           else []) @
          [(elapsed + fst (status w n), PrintError [Lit ''Service execution failed!'']),
           (elapsed + fst (status w n), Print [Val (JObj sd)])]"
    by (rule eq)
  show "polls (monitor_loop w jid n elapsed prev) = [(elapsed, status_request w jid)]"
    by (simp add: eq polls_def)
qed

theorem terminal_status_ends_monitoring_witness:
  "(10000::nat) < max_wait \<and>
   status_data_of (snd (status example_world 2)) =
     Inr [(''status'', JStr ''completed''), (''payment_status'', JStr ''paid''),
          (''result'', JStr ''sent'')] \<and>
   monitor_loop example_world (JStr ''job-1'') 2 10000 (JStr ''pending'') =
     [(10000, status_request example_world (JStr ''job-1'')),
      (10000, status_line 10000 (JStr ''completed'') (JStr ''paid'')),
      (10000, Print [Lit ''SERVICE COMPLETED!'']),
      (10000, PrintHeader [Lit ''Your AI Service Result'']),
      (10000, Print [Val (JStr ''sent'')])] \<and>
   (0::nat) < max_wait \<and>
   status_data_of (snd (status failed_world 0)) =
     Inr [(''status'', JStr ''failed''), (''payment_status'', JStr ''paid'')] \<and>
   monitor_loop failed_world (JStr ''job-1'') 0 0 JNull =
     [(0, status_request failed_world (JStr ''job-1'')),
      (0, status_line 0 (JStr ''failed'') (JStr ''paid'')),
      (0, PrintError [Lit ''Service execution failed!'']),
      (0, Print [Val (JObj [(''status'', JStr ''failed''), (''payment_status'', JStr ''paid'')])])]"
proof -
  have t1: "(10000::nat) < max_wait" and t2: "(0::nat) < max_wait"
    by (simp_all add: max_wait_def)
  have c: "status_data_of (snd (status example_world 2)) =
             Inr [(''status'', JStr ''completed''), (''payment_status'', JStr ''paid''),
                  (''result'', JStr ''sent'')]"
    by (simp add: example_world_def status_data_of_def decoded_def http_error_def)
  have f: "status_data_of (snd (status failed_world 0)) =
             Inr [(''status'', JStr ''failed''), (''payment_status'', JStr ''paid'')]"
    by (simp add: failed_world_def example_world_def status_data_of_def decoded_def
        http_error_def status_body_def)
  have d: "fst (status example_world 2) = 0" "fst (status failed_world 0) = 0"
    by (simp_all add: failed_world_def example_world_def)
  from terminal_status_ends_monitoring [OF t1 c, of "JStr ''job-1''" "JStr ''pending''"]
    terminal_status_ends_monitoring [OF t2 f, of "JStr ''job-1''" JNull]
  show ?thesis
    using t1 t2 c f by (simp add: d dict_get_def)
qed

section \<open>From \<open>main\<close> to the monitoring loop\<close>

lemma printed_simps [simp]:
  "printed [] = []"
  "printed (e # es) = (if is_printed e then e # printed es else printed es)"
  "printed (xs @ ys) = printed xs @ printed ys"
  by (simp_all add: printed_def)

lemma main_to_request_job:
  assumes "environ w ''PURCHASER_API_KEY'' = Some key" and "key \<noteq> []"
    and "checked (availability w) = Inr r" and "stdin w = l1 # l2 # l3 # others"
  shows "main w =
           [Print [Lit ''REAL WALLET PURCHASE TEST - MASUMI NETWORK''],
            PrintInfo [Lit ''Service URL: '', Lit (AGENT_URL w)],
            PrintInfo [Lit ''Payment Service: '', Lit (PAYMENT_SERVICE_URL w)],
            PrintInfo [Lit ''Network: '', Lit (NETWORK w)],
            PrintInfo [Lit ''Timestamp: '', Now],
            PrintSuccess [Lit ''Purchaser wallet configured!''],
            PrintHeader [Lit ''Step 1: Checking Service Availability''],
            Request Availability (AGENT_URL w @ ''/availability'') JNull [],
            PrintSuccess [Lit ''AI Service is online and ready!''],
            PrintHeader [Lit ''Step 2: Creating Service Request with Payment''],
            Input [Lit ''Recipient email (default: user@example.com): ''],
            Input [Lit ''Email subject (default: Test Email Subject): ''],
            Input [Lit ''Email body (default test body): '']] @
           request_job w key (or_default l1 ''user@example.com'')
             (or_default l2 ''Test Email Subject'')
             (or_default l3 ''This is a test email sent via Masumi-paid agent.'')"
  using assms by (simp add: main_def check_availability_def create_job_def)

lemma submit_payment_accepted:
  assumes "decoded (purchase w) = Inr payment_result" and "tx_hash_of payment_result = Inr tx_hash"
  shows "submit_payment w key j =
           [PrintHeader [Lit ''Step 3: Making Real Blockchain Payment from Your Wallet''],
            PrintInfo [Lit ''Initiating payment from your testnet wallet...''],
            PrintInfo [Lit ''Paying '', Amount (amount_ada j), Lit '' ADA to smart contract...''],
            purchase_request w key j,
            Print [Lit ''PAYMENT TRANSACTION SUBMITTED!''],
            Print [Val payment_result]] @
           (if truthy tx_hash then
              [PrintSuccess [Lit ''Transaction Hash: '', Val tx_hash],
               PrintInfo (Lit ''View on Cardano Explorer: '' # explorer_url w tx_hash)]
            else []) @
           Print [Lit ''Your wallet has sent ADA on the Cardano blockchain!''] #
           monitor w j tx_hash"
  using assms
  by (cases "purchase w")
    (auto simp: submit_payment_def decoded_def bind_exn_Inr split: if_splits option.splits)

lemma pending_stages:
  "environ pending_world ''PURCHASER_API_KEY'' = Some ''secret''"
  "checked (availability pending_world) = Inr (''ok'', None)"
  "stdin pending_world = [] # [] # [] # []"
  "decoded (start_job pending_world) = Inr example_job_data"
  "job_of pending_world example_job_data = Inr example_job"
  "decoded (purchase pending_world) = Inr (JObj [(''data'', JObj [(''txHash'', JStr ''abc123'')])])"
  "tx_hash_of (JObj [(''data'', JObj [(''txHash'', JStr ''abc123'')])]) = Inr (JStr ''abc123'')"
  "NETWORK pending_world = ''Preprod''"
         apply (simp_all add: pending_world_def example_world_def http_error_def decoded_def
      tx_hash_of_def NETWORK_def getenv_def)
  using example_job_of
  apply (simp add: job_of_def build_payment_details_def NETWORK_def getenv_def example_world_def)
  done

lemma pending_status:
  "status_data_of (snd (status pending_world n)) =
     Inr [(''status'', JStr ''pending''), (''payment_status'', JStr ''paid'')]"
  by (simp add: pending_world_def example_world_def status_data_of_def decoded_def
      http_error_def status_body_def)

lemma pending_took: "fst (status pending_world n) = 0"
  by (simp add: pending_world_def example_world_def)

lemma pending_loop:
  "printed (map snd (monitor_loop pending_world jid 0 0 JNull)) =
     [status_line 0 (JStr ''pending'') (JStr ''paid'')] \<and>
   length (polls (monitor_loop pending_world jid 0 0 JNull)) = 60 \<and>
   last (monitor_loop pending_world jid 0 0 JNull) = (295000, Sleep 5)"
  by (simp add: monitor_loop_waiting [OF _ pending_status] monitor_loop_deadline pending_took
      max_wait_def dict_get_def polls_def status_line_def status_request_def)

section \<open>The deadline ends the monitoring (C2)\<close>

text \<open>
  C2, as the claim states it, fails where it says that an explicit timed-out outcome is
  emitted: the script has no such report. In the run below every poll finds the job
  pending; the loop polls sixty times, the last sleep starts at 295 seconds, and the script
  goes straight on to the summary. What the whole run prints is listed: after the single
  status line comes the summary, which is the one printed after a completed job.
\<close>

theorem timeout_is_not_reported:
  "length (polls (monitor_loop pending_world (JStr ''job-1'') 0 0 JNull)) = 60 \<and>
   last (monitor_loop pending_world (JStr ''job-1'') 0 0 JNull) = (295000, Sleep 5) \<and>
   printed (main pending_world) =
     [Print [Lit ''REAL WALLET PURCHASE TEST - MASUMI NETWORK''],
      PrintInfo [Lit ''Service URL: '', Lit ''https://emailagent-production-cc02.up.railway.app''],
      PrintInfo [Lit ''Payment Service: '',
                 Lit ''https://masumi-payment-service-production-8680.up.railway.app/api/v1''],
      PrintInfo [Lit ''Network: '', Lit ''Preprod''],
      PrintInfo [Lit ''Timestamp: '', Now],
      PrintSuccess [Lit ''Purchaser wallet configured!''],
      PrintHeader [Lit ''Step 1: Checking Service Availability''],
      PrintSuccess [Lit ''AI Service is online and ready!''],
      PrintHeader [Lit ''Step 2: Creating Service Request with Payment''],
      PrintInfo [Lit ''Requesting email to: '', Lit ''user@example.com'', Lit '' with subject '',
                 Lit ''Test Email Subject''],
      PrintSuccess [Lit ''Job Created: '', Val (JStr ''job-1'')],
      PrintSuccess [Lit ''Blockchain Contract: '', Val (JStr ''contract-1'')],
      PrintSuccess [Lit ''Payment Required: '', Amount 5, Lit '' ADA ('', Val (JStr ''5000000''),
                    Lit '' lovelace)''],
      PrintInfo [Lit ''Track on explorer: '', Lit ''https://preprod.cardanoscan.io/transaction/'',
                 Val (JStr ''contract-1'')],
      PrintHeader [Lit ''Step 3: Making Real Blockchain Payment from Your Wallet''],
      PrintInfo [Lit ''Initiating payment from your testnet wallet...''],
      PrintInfo [Lit ''Paying '', Amount 5, Lit '' ADA to smart contract...''],
      Print [Lit ''PAYMENT TRANSACTION SUBMITTED!''],
      Print [Val (JObj [(''data'', JObj [(''txHash'', JStr ''abc123'')])])],
      PrintSuccess [Lit ''Transaction Hash: '', Val (JStr ''abc123'')],
      PrintInfo [Lit ''View on Cardano Explorer: '',
                 Lit ''https://preprod.cardanoscan.io/transaction/'', Val (JStr ''abc123'')],
      Print [Lit ''Your wallet has sent ADA on the Cardano blockchain!''],
      PrintHeader [Lit ''Step 4: Monitoring Blockchain & Service Execution''],
      PrintInfo [Lit ''Waiting for blockchain confirmation...''],
      PrintInfo [Lit ''This may take 20-60 seconds on Cardano testnet''],
      status_line 0 (JStr ''pending'') (JStr ''paid''),
      PrintHeader [Lit ''Transaction Summary''],
      Print [Lit ''WHAT HAPPENED: Your testnet wallet address sent '', Amount 5,
             Lit '' ADA; Transaction recorded on Cardano '', Lit ''Preprod'',
             Lit '' blockchain; Smart contract received and verified payment; '',
             Lit ''AI service executed your request; Result delivered to you; '',
             Lit ''Payment released to seller's wallet''],
      Print [Lit ''BLOCKCHAIN VERIFICATION: Network: Cardano '', Lit ''Preprod''],
      Print [Lit ''Smart Contract: '', Val (JStr ''contract-1''), Lit ''...''],
      Print [Lit ''Amount: '', Amount 5, Lit '' ADA''],
      Print [Lit ''Transaction: '', Val (JStr ''abc123''), Lit ''...''],
      Print [Lit ''Explorer: '', Lit ''https://preprod.cardanoscan.io/transaction/'',
             Val (JStr ''abc123'')],
      Print [Lit ''YOUR WALLET: Test ADA was deducted from your wallet''],
      Print [Lit ''REAL BLOCKCHAIN TRANSACTION COMPLETE!''],
      PrintSuccess [Lit ''This was a REAL transaction on Cardano testnet!''],
      PrintInfo [Lit ''Check the Cardano explorer link above to verify on-chain'']]"
proof -
  have urls:
    "AGENT_URL pending_world = ''https://emailagent-production-cc02.up.railway.app''"
    "PAYMENT_SERVICE_URL pending_world =
       ''https://masumi-payment-service-production-8680.up.railway.app/api/v1''"
    by (simp_all add: AGENT_URL_def PAYMENT_SERVICE_URL_def getenv_def pending_world_def
        example_world_def)
  have m: "main pending_world =
             [Print [Lit ''REAL WALLET PURCHASE TEST - MASUMI NETWORK''],
              PrintInfo [Lit ''Service URL: '', Lit (AGENT_URL pending_world)],
              PrintInfo [Lit ''Payment Service: '', Lit (PAYMENT_SERVICE_URL pending_world)],
              PrintInfo [Lit ''Network: '', Lit (NETWORK pending_world)],
              PrintInfo [Lit ''Timestamp: '', Now],
              PrintSuccess [Lit ''Purchaser wallet configured!''],
              PrintHeader [Lit ''Step 1: Checking Service Availability''],
              Request Availability (AGENT_URL pending_world @ ''/availability'') JNull [],
              PrintSuccess [Lit ''AI Service is online and ready!''],
              PrintHeader [Lit ''Step 2: Creating Service Request with Payment''],
              Input [Lit ''Recipient email (default: user@example.com): ''],
              Input [Lit ''Email subject (default: Test Email Subject): ''],
              Input [Lit ''Email body (default test body): '']] @
             request_job pending_world ''secret'' (or_default [] ''user@example.com'')
               (or_default [] ''Test Email Subject'')
               (or_default [] ''This is a test email sent via Masumi-paid agent.'')"
    by (rule main_to_request_job [OF pending_stages(1) _ pending_stages(2) pending_stages(3)])
      simp
  have p: "printed (map snd (monitor_loop pending_world (job_id example_job) 0 0 JNull)) =
             [status_line 0 (JStr ''pending'') (JStr ''paid'')]"
    using pending_loop by blast
  show ?thesis
    apply (intro conjI)
    using pending_loop apply blast
    using pending_loop apply blast
    apply (simp add: m request_job_created [OF pending_stages(4) pending_stages(5)]
        submit_payment_accepted [OF pending_stages(6) pending_stages(7)]
        monitor_def p summary_def summary_end_def explorer_url_def pending_stages(8) urls
        or_default_def purchase_request_def)
    apply (simp add: example_job_def status_line_def explorer_url_def pending_stages(8)
        summary_end_def)
    done
qed

lemma pending_run:
  assumes nt: "\<forall>m<60. non_terminal (snd (status w m))"
  shows "5000 * n \<le> elapsed \<Longrightarrow>
         (\<forall>te \<in> set (monitor_loop w jid n elapsed prev).
             (snd te = status_request w jid \<and> fst te < max_wait) \<or>
             is_status_line (snd te) \<or> snd te = Sleep 5) \<and>
         (elapsed < max_wait \<longrightarrow>
            monitor_loop w jid n elapsed prev \<noteq> [] \<and>
            snd (last (monitor_loop w jid n elapsed prev)) = Sleep 5 \<and>
            max_wait \<le> fst (last (monitor_loop w jid n elapsed prev)) + 5000)"
proof (induction "max_wait - elapsed" arbitrary: n elapsed prev rule: less_induct)
  case less
  show ?case
  proof (cases "elapsed < max_wait")
    case False
    then show ?thesis
      by (simp add: monitor_loop_deadline)
  next
    case True
    with less.prems have "n < 60"
      by (simp add: max_wait_def)
    with nt have "non_terminal (snd (status w n))"
      by blast
    then obtain sd where
      sd: "status_data_of (snd (status w n)) = Inr sd" and
      nc: "dict_get sd ''status'' \<noteq> JStr ''completed''" and
      nf: "dict_get sd ''status'' \<noteq> JStr ''failed''"
      by (auto simp: non_terminal_def split: sum.splits)
    define now where "now = elapsed + fst (status w n)"
    define prev' where
      "prev' = (if \<not> py_eq (dict_get sd ''status'') prev then dict_get sd ''status'' else prev)"
    define rest where "rest = monitor_loop w jid (Suc n) (now + 5000) prev'"
    have eq: "monitor_loop w jid n elapsed prev =
                (elapsed, status_request w jid) #
                (if \<not> py_eq (dict_get sd ''status'') prev
                 then [(now, status_line now (dict_get sd ''status'')
                               (dict_get sd ''payment_status''))]
                 else []) @
                (now, Sleep 5) # rest"
      unfolding now_def prev'_def rest_def
      by (rule monitor_loop_waiting [OF True sd nc nf])
    have smaller: "max_wait - (now + 5000) < max_wait - elapsed"
      using True by (simp add: now_def)
    have inv: "5000 * Suc n \<le> now + 5000"
      using less.prems by (simp add: now_def)
    note ih = less.hyps [OF smaller inv, of prev', folded rest_def]
    have events: "\<forall>te \<in> set (monitor_loop w jid n elapsed prev).
                    (snd te = status_request w jid \<and> fst te < max_wait) \<or>
                    is_status_line (snd te) \<or> snd te = Sleep 5"
      using ih True by (auto simp: eq)
    have ending: "snd (last (monitor_loop w jid n elapsed prev)) = Sleep 5 \<and>
                  max_wait \<le> fst (last (monitor_loop w jid n elapsed prev)) + 5000"
    proof (cases "now + 5000 < max_wait")
      case True
      with ih show ?thesis
        by (simp add: eq)
    next
      case False
      then have "rest = []"
        by (simp add: rest_def monitor_loop_deadline)
      with False show ?thesis
        by (simp add: eq)
    qed
    from events ending show ?thesis
      by (simp add: eq)
  qed
qed

text \<open>
  C2, amended. If every poll before the deadline returns a non-terminal status (at most
  sixty polls fit before it, five seconds apart), then every event of the loop is a status
  request issued while the elapsed time is below \<open>max_wait\<close>, a status-change line or a
  five-second sleep: neither a completion nor a failure is reported, and no poll is made at
  or after the deadline. The loop ends after a sleep that reaches the deadline, and the
  summary follows at once, without any report of the timeout.
\<close>

theorem deadline_ends_monitoring:
  assumes "\<forall>m<60. non_terminal (snd (status w m))"
  shows "(\<forall>te \<in> set (monitor_loop w (job_id j) 0 0 JNull).
            (snd te = status_request w (job_id j) \<and> fst te < max_wait) \<or>
            is_status_line (snd te) \<or> snd te = Sleep 5) \<and>
         monitor_loop w (job_id j) 0 0 JNull \<noteq> [] \<and>
         snd (last (monitor_loop w (job_id j) 0 0 JNull)) = Sleep 5 \<and>
         max_wait \<le> fst (last (monitor_loop w (job_id j) 0 0 JNull)) + 5000 \<and>
         monitor w j tx_hash =
           [PrintHeader [Lit ''Step 4: Monitoring Blockchain & Service Execution''],
            PrintInfo [Lit ''Waiting for blockchain confirmation...''],
            PrintInfo [Lit ''This may take 20-60 seconds on Cardano testnet'']] @
           map snd (monitor_loop w (job_id j) 0 0 JNull) @ summary w j tx_hash"
  using pending_run [OF assms, of 0 0 "job_id j" JNull]
  by (simp add: max_wait_def monitor_def)

theorem deadline_ends_monitoring_witness:
  "non_terminal (snd (status pending_world 0)) \<and>
   non_terminal (snd (status pending_world 59)) \<and>
   list_all (\<lambda>te. (snd te = status_request pending_world (JStr ''job-1'') \<and> fst te < max_wait) \<or>
                   is_status_line (snd te) \<or> snd te = Sleep 5)
     (monitor_loop pending_world (JStr ''job-1'') 0 0 JNull) \<and>
   last (monitor_loop pending_world (JStr ''job-1'') 0 0 JNull) = (295000, Sleep 5) \<and>
   max_wait \<le> fst (last (monitor_loop pending_world (JStr ''job-1'') 0 0 JNull)) + 5000"
proof -
  have nt: "non_terminal (snd (status pending_world m))" for m
    by (simp add: non_terminal_def pending_status dict_get_def)
  then have h: "\<forall>m<60. non_terminal (snd (status pending_world m))"
    by blast
  have j: "job_id example_job = JStr ''job-1''"
    by (simp add: example_job_def)
  from deadline_ends_monitoring [OF h, of example_job "JStr ''abc123''"] nt pending_loop
  show ?thesis
    by (simp add: j list_all_iff)
qed

section \<open>Status-change lines (C4)\<close>

lemma polls_simps [simp]:
  "polls [] = []"
  "polls (te # tes) = (if is_status_request (snd te) then te # polls tes else polls tes)"
  "polls (xs @ ys) = polls xs @ polls ys"
  by (simp_all add: polls_def)

lemma status_lines_simps [simp]:
  "status_lines [] = []"
  "status_lines (te # tes) = (if is_status_line (snd te) then te # status_lines tes else status_lines tes)"
  "status_lines (xs @ ys) = status_lines xs @ status_lines ys"
  by (simp_all add: status_lines_def)

lemma after_polls_ge: "elapsed \<le> after_polls w n elapsed k"
proof (induction k arbitrary: n elapsed)
  case 0
  show ?case by simp
next
  case (Suc k)
  have "elapsed \<le> elapsed + fst (status w n) + 5000"
    by simp
  also have "\<dots> \<le> after_polls w (Suc n) (elapsed + fst (status w n) + 5000) k"
    by (rule Suc.IH)
  finally show ?case
    by simp
qed

lemma same_status_run:
  assumes nc: "s \<noteq> JStr ''completed''" and nf: "s \<noteq> JStr ''failed''" and rf: "py_eq s s"
  shows "\<forall>i\<le>k. \<exists>sd. status_data_of (snd (status w (n + i))) = Inr sd \<and> dict_get sd ''status'' = s \<Longrightarrow>
         after_polls w n elapsed k < max_wait \<Longrightarrow>
         \<exists>pre ps. monitor_loop w jid n elapsed prev =
                    pre @ monitor_loop w jid (n + Suc k) (after_polls w n elapsed (Suc k))
                            (if py_eq s prev then prev else s) \<and>
                  length (polls pre) = Suc k \<and>
                  status_lines pre =
                    (if py_eq s prev then []
                     else [(elapsed + fst (status w n),
                            status_line (elapsed + fst (status w n)) s ps)])"
proof (induction k arbitrary: n elapsed prev)
  case 0
  from 0(1) obtain sd where
    sd: "status_data_of (snd (status w n)) = Inr sd" and st: "dict_get sd ''status'' = s"
    by auto
  from 0(2) have t: "elapsed < max_wait"
    by simp
  have eq: "monitor_loop w jid n elapsed prev =
              ((elapsed, status_request w jid) #
               (if \<not> py_eq s prev
                then [(elapsed + fst (status w n),
                       status_line (elapsed + fst (status w n)) s (dict_get sd ''payment_status''))]
                else []) @
               [(elapsed + fst (status w n), Sleep 5)]) @
              monitor_loop w jid (Suc n) (elapsed + fst (status w n) + 5000)
                (if \<not> py_eq s prev then s else prev)"
    using monitor_loop_waiting [OF t sd, of jid prev] nc nf st by simp
  show ?case
    apply (rule exI [of _ "(elapsed, status_request w jid) #
               (if \<not> py_eq s prev
                then [(elapsed + fst (status w n),
                       status_line (elapsed + fst (status w n)) s (dict_get sd ''payment_status''))]
                else []) @
               [(elapsed + fst (status w n), Sleep 5)]"])
    apply (rule exI [of _ "dict_get sd ''payment_status''"])
    using eq apply simp
    done
next
  case (Suc k)
  from Suc.prems(1) obtain sd where
    sd: "status_data_of (snd (status w n)) = Inr sd" and st: "dict_get sd ''status'' = s"
    by force
  define now where "now = elapsed + fst (status w n)"
  define prev' where "prev' = (if \<not> py_eq s prev then s else prev)"
  have later: "after_polls w (Suc n) (now + 5000) k < max_wait"
    using Suc.prems(2) by (simp add: now_def)
  have "elapsed \<le> now + 5000"
    by (simp add: now_def)
  also have "\<dots> \<le> after_polls w (Suc n) (now + 5000) k"
    by (rule after_polls_ge)
  finally have t: "elapsed < max_wait"
    using later by simp
  have eq: "monitor_loop w jid n elapsed prev =
              ((elapsed, status_request w jid) #
               (if \<not> py_eq s prev
                then [(now, status_line now s (dict_get sd ''payment_status''))]
                else []) @
               [(now, Sleep 5)]) @
              monitor_loop w jid (Suc n) (now + 5000) prev'"
    using monitor_loop_waiting [OF t sd, of jid prev] nc nf st
    by (simp add: now_def prev'_def)
  have same: "\<forall>i\<le>k. \<exists>sd. status_data_of (snd (status w (Suc n + i))) = Inr sd \<and>
                         dict_get sd ''status'' = s"
  proof (intro allI impI)
    fix i assume "i \<le> k"
    then have "Suc i \<le> Suc k"
      by simp
    with Suc.prems(1) have "\<exists>sd. status_data_of (snd (status w (n + Suc i))) = Inr sd \<and>
                                 dict_get sd ''status'' = s"
      by blast
    then show "\<exists>sd. status_data_of (snd (status w (Suc n + i))) = Inr sd \<and>
                    dict_get sd ''status'' = s"
      by simp
  qed
  have seen: "py_eq s prev'"
    using rf by (simp add: prev'_def)
  from Suc.IH [OF same later, of prev'] seen obtain pre' where
    rest: "monitor_loop w jid (Suc n) (now + 5000) prev' =
             pre' @ monitor_loop w jid (Suc n + Suc k)
                      (after_polls w (Suc n) (now + 5000) (Suc k)) prev'" and
    np: "length (polls pre') = Suc k" and
    nl: "status_lines pre' = []"
    by auto
  have final: "prev' = (if py_eq s prev then prev else s)"
    by (simp add: prev'_def)
  show ?case
    apply (rule exI [of _ "((elapsed, status_request w jid) #
               (if \<not> py_eq s prev
                then [(now, status_line now s (dict_get sd ''payment_status''))]
                else []) @
               [(now, Sleep 5)]) @ pre'"])
    apply (rule exI [of _ "dict_get sd ''payment_status''"])
    using eq rest np nl final apply (simp add: now_def)
    done
qed

lemma silent_status: "status_data_of (snd (status silent_world n)) = Inr []"
  by (simp add: silent_world_def example_world_def status_data_of_def decoded_def http_error_def)

lemma silent_took: "fst (status silent_world n) = 0"
  by (simp add: silent_world_def example_world_def)

text \<open>
  C4, as the claim states it, fails for a status that is missing or \<^verbatim>\<open>null\<close> from the first
  poll on: \<^verbatim>\<open>status_data.get("status")\<close> is then \<^verbatim>\<open>None\<close>, which is also the initial value
  of \<^verbatim>\<open>last_status\<close>, so no line is printed at all. In the run below every poll succeeds
  with an empty object; sixty polls are made and no status-change line is printed.
\<close>

theorem absent_status_is_never_recorded:
  "status_data_of (snd (status silent_world 0)) = Inr [] \<and>
   length (polls (monitor_loop silent_world (JStr ''job-1'') 0 0 JNull)) = 60 \<and>
   status_lines (monitor_loop silent_world (JStr ''job-1'') 0 0 JNull) = []"
  by (simp add: silent_status monitor_loop_waiting [OF _ silent_status] monitor_loop_deadline
      silent_took max_wait_def dict_get_def)

text \<open>
  C4, amended. Take \<open>K\<close> polls in a row, the first issued at \<open>elapsed\<close>, that all succeed with
  the same job status \<open>s\<close>, which is not terminal, and that all start before the deadline.
  Then the loop makes exactly these \<open>K\<close> requests and prints one status-change line, at the
  first of them, if \<open>s\<close> differs (by Python's \<^verbatim>\<open>!=\<close>) from the last observed status, and
  none otherwise. The last observed status is \<^verbatim>\<open>None\<close> when the monitoring starts, so a
  status that is there from the first poll on is recorded once unless it is missing or
  \<^verbatim>\<open>null\<close>.
\<close>

theorem one_line_per_run_of_equal_statuses:
  assumes "\<forall>i<K. \<exists>sd. status_data_of (snd (status w (n + i))) = Inr sd \<and> dict_get sd ''status'' = s"
    and "s \<noteq> JStr ''completed''" and "s \<noteq> JStr ''failed''" and "py_eq s s"
    and "0 < K" and "after_polls w n elapsed (K - 1) < max_wait"
  shows "\<exists>pre ps. monitor_loop w jid n elapsed prev =
                    pre @ monitor_loop w jid (n + K) (after_polls w n elapsed K)
                            (if py_eq s prev then prev else s) \<and>
                  length (polls pre) = K \<and>
                  status_lines pre =
                    (if py_eq s prev then []
                     else [(elapsed + fst (status w n),
                            status_line (elapsed + fst (status w n)) s ps)])"
proof -
  from assms(5) obtain k where k: "K = Suc k"
    by (cases K) auto
  from assms(1) have "\<forall>i\<le>k. \<exists>sd. status_data_of (snd (status w (n + i))) = Inr sd \<and>
                                 dict_get sd ''status'' = s"
    by (simp add: k less_Suc_eq_le)
  moreover from assms(6) have "after_polls w n elapsed k < max_wait"
    by (simp add: k)
  ultimately show ?thesis
    unfolding k by (rule same_status_run [OF assms(2) assms(3) assms(4)])
qed

theorem one_line_per_run_of_equal_statuses_witness:
  "status_data_of (snd (status pending_world 2)) =
     Inr [(''status'', JStr ''pending''), (''payment_status'', JStr ''paid'')] \<and>
   after_polls pending_world 0 0 2 < max_wait \<and>
   (\<exists>pre ps. monitor_loop pending_world (JStr ''job-1'') 0 0 JNull =
               pre @ monitor_loop pending_world (JStr ''job-1'') 3 15000 (JStr ''pending'') \<and>
             length (polls pre) = 3 \<and>
             status_lines pre = [(0, status_line 0 (JStr ''pending'') ps)])"
proof -
  have same: "\<forall>i<3. \<exists>sd. status_data_of (snd (status pending_world (0 + i))) = Inr sd \<and>
                         dict_get sd ''status'' = JStr ''pending''"
    by (simp add: pending_status dict_get_def)
  have ap: "after_polls pending_world 0 0 2 = 10000" "after_polls pending_world 0 0 3 = 15000"
    by (simp_all add: numeral_2_eq_2 numeral_3_eq_3 pending_took)
  have t: "after_polls pending_world 0 0 (3 - 1) < max_wait"
    by (simp add: ap max_wait_def)
  from one_line_per_run_of_equal_statuses [OF same _ _ _ _ t, of "JStr ''job-1''" JNull]
  show ?thesis
    using pending_status [of 2] t by (simp add: ap pending_took)
qed

section \<open>The requests of a run\<close>

lemma monitor_loop_requests:
  "(t, Request ep url d hdrs) \<in> set (monitor_loop w jid n elapsed prev) \<Longrightarrow> ep = Status"
proof (induction "max_wait - elapsed" arbitrary: n elapsed prev rule: less_induct)
  case less
  show ?case
  proof (cases "elapsed < max_wait")
    case False
    with less.prems show ?thesis
      by (simp add: monitor_loop_deadline)
  next
    case True
    then have smaller: "max_wait - (elapsed + fst (status w n) + 5000) < max_wait - elapsed"
      by simp
    note ih = less.hyps [OF smaller]
    show ?thesis
    proof (cases "status_data_of (snd (status w n))")
      case (Inl e)
      from less.prems ih show ?thesis
        by (auto simp: monitor_loop_error [OF True Inl] status_request_def)
    next
      case (Inr sd)
      consider "dict_get sd ''status'' = JStr ''completed''"
        | "dict_get sd ''status'' = JStr ''failed''"
        | "dict_get sd ''status'' \<noteq> JStr ''completed''" "dict_get sd ''status'' \<noteq> JStr ''failed''"
        by blast
      then show ?thesis
      proof cases
        case 1
        from less.prems show ?thesis
          by (auto simp: monitor_loop_completed [OF True Inr 1] status_request_def
              status_line_def split: if_splits)
      next
        case 2
        from less.prems show ?thesis
          by (auto simp: monitor_loop_failed [OF True Inr 2] status_request_def
              status_line_def split: if_splits)
      next
        case 3
        from less.prems ih show ?thesis
          by (auto simp: monitor_loop_waiting [OF True Inr 3] status_request_def
              status_line_def split: if_splits)
      qed
    qed
  qed
qed

lemma endpoints_simps [simp]:
  "endpoints [] = []"
  "endpoints (e # es) = endpoint_of e @ endpoints es"
  "endpoints (xs @ ys) = endpoints xs @ endpoints ys"
  by (simp_all add: endpoints_def)

lemma endpoints_member:
  "ep \<in> set (endpoints evs) \<longleftrightarrow> (\<exists>url d hdrs. Request ep url d hdrs \<in> set evs)"
proof (induction evs)
  case Nil
  show ?case by simp
next
  case (Cons e evs)
  show ?case
    by (cases e) (auto simp: Cons.IH)
qed

lemma endpoints_monitor_loop:
  "set (endpoints (map snd (monitor_loop w jid n elapsed prev))) \<subseteq> {Status}"
  using monitor_loop_requests by (fastforce simp: endpoints_member)

lemma endpoints_summary [simp]: "endpoints (summary w j tx_hash) = []"
  by (simp add: summary_def summary_end_def split: sum.splits)

lemma endpoints_setup_guidance [simp]: "endpoints (setup_guidance w) = []"
  by (simp add: setup_guidance_def)

lemma endpoints_monitor:
  "endpoints (monitor w j tx_hash) = endpoints (map snd (monitor_loop w (job_id j) 0 0 JNull))"
  by (simp add: monitor_def)

lemma endpoints_submit_payment:
  "endpoints (submit_payment w key j) =
     Purchase #
     (case bind_exn (decoded (purchase w)) tx_hash_of of
        Inl e \<Rightarrow> []
      | Inr tx_hash \<Rightarrow> endpoints (map snd (monitor_loop w (job_id j) 0 0 JNull)))"
  by (cases "purchase w")
    (auto simp: submit_payment_def purchase_request_def decoded_def endpoints_monitor
      split: option.splits sum.splits)

lemma endpoints_request_job:
  "endpoints (request_job w key r s b) =
     StartJob #
     (case bind_exn (decoded (start_job w)) (job_of w) of
        Inl e \<Rightarrow> []
      | Inr j \<Rightarrow> endpoints (submit_payment w key j))"
  by (simp add: request_job_def split: sum.splits)

lemma endpoints_main:
  "endpoints (main w) =
     (case environ w ''PURCHASER_API_KEY'' of
        None \<Rightarrow> []
      | Some key \<Rightarrow>
          if key = [] then []
          else Availability #
            (case checked (availability w) of
               Inl e \<Rightarrow> []
             | Inr r \<Rightarrow>
                 (case stdin w of
                    l1 # l2 # l3 # others \<Rightarrow>
                      StartJob #
                      (case bind_exn (decoded (start_job w)) (job_of w) of
                         Inl e \<Rightarrow> []
                       | Inr j \<Rightarrow>
                           Purchase #
                           (case bind_exn (decoded (purchase w)) tx_hash_of of
                              Inl e \<Rightarrow> []
                            | Inr tx_hash \<Rightarrow>
                                endpoints (map snd (monitor_loop w (job_id j) 0 0 JNull))))
                  | _ \<Rightarrow> [])))"
  by (auto simp: main_def check_availability_def create_job_def endpoints_request_job
      endpoints_submit_payment split: option.splits sum.splits list.splits)



lemma example_stages:
  "environ example_world ''PURCHASER_API_KEY'' = Some ''secret''"
  "checked (availability example_world) = Inr (''ok'', None)"
  "stdin example_world = [] # [] # [] # []"
  "decoded (purchase example_world) = Inr (JObj [(''data'', JObj [(''txHash'', JStr ''abc123'')])])"
  "tx_hash_of (JObj [(''data'', JObj [(''txHash'', JStr ''abc123'')])]) = Inr (JStr ''abc123'')"
  "NETWORK example_world = ''Preprod''"
  by (simp_all add: example_world_def http_error_def decoded_def tx_hash_of_def NETWORK_def
      getenv_def)

section \<open>Every stage is a gate (C8)\<close>



section \<open>Where the purchase request comes from\<close>

lemma purchase_issued_cases:
  assumes "Purchase \<in> set (endpoints (main w))"
  shows "\<exists>key r l1 l2 l3 others j.
           environ w ''PURCHASER_API_KEY'' = Some key \<and> key \<noteq> [] \<and>
           checked (availability w) = Inr r \<and> stdin w = l1 # l2 # l3 # others \<and>
           bind_exn (decoded (start_job w)) (job_of w) = Inr j"
proof (cases "environ w ''PURCHASER_API_KEY''")
  case None
  with assms show ?thesis
    by (simp add: endpoints_main)
next
  case (Some key)
  show ?thesis
  proof (cases "checked (availability w)")
    case (Inl e)
    with assms Some show ?thesis
      by (simp add: endpoints_main split: if_splits)
  next
    case (Inr r)
    show ?thesis
    proof (cases "bind_exn (decoded (start_job w)) (job_of w)")
      case (Inl e)
      with assms Some Inr show ?thesis
        by (simp add: endpoints_main split: if_splits list.splits)
    next
      case j: (Inr j)
      from assms Some Inr j have "key \<noteq> []" and "\<exists>l1 l2 l3 others. stdin w = l1 # l2 # l3 # others"
        by (auto simp: endpoints_main split: if_splits list.splits) metis
      with Some Inr j show ?thesis
        by blast
    qed
  qed
qed

lemma main_to_submit_payment:
  assumes "Purchase \<in> set (endpoints (main w))"
  shows "\<exists>pre key j. main w = pre @ submit_payment w key j \<and>
           Purchase \<notin> set (endpoints pre) \<and>
           bind_exn (decoded (start_job w)) (job_of w) = Inr j"
proof -
  from assms obtain key r l1 l2 l3 others j where
    k: "environ w ''PURCHASER_API_KEY'' = Some key" "key \<noteq> []" and
    a: "checked (availability w) = Inr r" and i: "stdin w = l1 # l2 # l3 # others" and
    j: "bind_exn (decoded (start_job w)) (job_of w) = Inr j"
    using purchase_issued_cases by blast
  from j obtain job_data where
    d: "decoded (start_job w) = Inr job_data" and o: "job_of w job_data = Inr j"
    by (auto simp: bind_exn_Inr)
  show ?thesis
    apply (rule exI [of _ "take 19 (main w)"])
    apply (rule exI [of _ key])
    apply (rule exI [of _ j])
    apply (simp add: main_to_request_job [OF k a i] request_job_created [OF d o] j)
    done
qed

lemma monitor_requests:
  assumes "Request ep url d hdrs \<in> set (monitor w j tx_hash)"
  shows "ep = Status"
proof -
  from assms have "ep \<in> set (endpoints (monitor w j tx_hash))"
    by (auto simp: endpoints_member)
  with endpoints_monitor_loop [of w "job_id j" 0 0 JNull] show ?thesis
    by (auto simp: endpoints_monitor)
qed

lemma submit_payment_requests:
  assumes "Request Purchase url d hdrs \<in> set (submit_payment w key j)"
  shows "Request Purchase url d hdrs = purchase_request w key j"
  using assms
  by (cases "purchase w")
    (auto simp: submit_payment_def purchase_request_def
      split: if_splits option.splits sum.splits dest: monitor_requests)

lemma purchase_request_origin:
  assumes "Request Purchase url d hdrs \<in> set (main w)"
  shows "\<exists>key j. bind_exn (decoded (start_job w)) (job_of w) = Inr j \<and>
           Request Purchase url d hdrs = purchase_request w key j"
proof -
  from assms have "Purchase \<in> set (endpoints (main w))"
    by (auto simp: endpoints_member)
  from main_to_submit_payment [OF this] obtain pre key j where
    m: "main w = pre @ submit_payment w key j" and
    p: "Purchase \<notin> set (endpoints pre)" and
    j: "bind_exn (decoded (start_job w)) (job_of w) = Inr j"
    by blast
  from p have "Request Purchase url d hdrs \<notin> set pre"
    by (auto simp: endpoints_member)
  with assms m have "Request Purchase url d hdrs \<in> set (submit_payment w key j)"
    by simp
  from submit_payment_requests [OF this] j show ?thesis
    by blast
qed

lemma submit_payment_rejected:
  assumes "purchase w = Response st txt js" and "http_error st"
  shows "submit_payment w key j =
           [PrintHeader [Lit ''Step 3: Making Real Blockchain Payment from Your Wallet''],
            PrintInfo [Lit ''Initiating payment from your testnet wallet...''],
            PrintInfo [Lit ''Paying '', Amount (amount_ada j), Lit '' ADA to smart contract...''],
            purchase_request w key j,
            PrintError [Lit ''Payment failed: '', Exn (HTTPError st)],
            PrintError [Lit ''Response: '', Lit txt],
            PrintWarning [Lit ''Possible issues:''],
            Print [Lit ''  - Insufficient test ADA in wallet''],
            Print [Lit ''  - Wallet not registered properly''],
            Print [Lit ''  - Invalid API key'']]"
  using assms by (simp add: submit_payment_def)

lemma rejected_endpoints: "endpoints (main rejected_world) = [Availability, StartJob, Purchase]"
proof -
  have r: "bind_exn (decoded (purchase rejected_world)) tx_hash_of = Inl (HTTPError 402)"
    by (simp add: rejected_world_def decoded_def http_error_def)
  have j: "bind_exn (decoded (start_job rejected_world)) (job_of rejected_world) = Inr example_job"
    using example_decoded example_job_of
    by (simp add: rejected_world_def decoded_def job_of_def build_payment_details_def
        NETWORK_def getenv_def example_world_def)
  have env:
    "environ rejected_world ''PURCHASER_API_KEY'' = Some ''secret''"
    "checked (availability rejected_world) = Inr (''ok'', None)"
    "stdin rejected_world = [] # [] # [] # []"
    by (simp_all add: rejected_world_def example_world_def http_error_def)
  show ?thesis
    by (simp add: endpoints_main env j r)
qed

lemma rejected_body_text: \<open>sublist ''insufficient funds'' rejected_body\<close>
proof -
  have \<open>rejected_body = ''{"message":"'' @ ''insufficient funds'' @ ''"}''\<close>
    by (simp add: rejected_body_def)
  then show ?thesis
    unfolding sublist_def by blast
qed

section \<open>A rejected payment (C7)\<close>

text \<open>
  C7. If the purchase request is answered with an HTTP error status, the run issues no status
  request, issues the purchase request at most once, and, when it has issued it, ends right
  after it with the two error lines, the second of which carries the response body as it was
  received, and the list of possible issues. For the body
  \<^verbatim>\<open>{"message":"insufficient funds"}\<close> the error text contains \<^verbatim>\<open>insufficient funds\<close>.
\<close>

theorem rejected_payment_aborts_run:
  assumes "purchase w = Response st txt js" and "http_error st"
  shows "Status \<notin> set (endpoints (main w)) \<and>
         length (filter (\<lambda>ep. ep = Purchase) (endpoints (main w))) \<le> 1 \<and>
         (Purchase \<in> set (endpoints (main w)) \<longrightarrow>
            (\<exists>pre key j. main w =
               pre @
               [purchase_request w key j,
                PrintError [Lit ''Payment failed: '', Exn (HTTPError st)],
                PrintError [Lit ''Response: '', Lit txt],
                PrintWarning [Lit ''Possible issues:''],
                Print [Lit ''  - Insufficient test ADA in wallet''],
                Print [Lit ''  - Wallet not registered properly''],
                Print [Lit ''  - Invalid API key'']]))"
proof (intro conjI impI)
  have r: "bind_exn (decoded (purchase w)) tx_hash_of = Inl (HTTPError st)"
    using assms by (simp add: decoded_def)
  show "Status \<notin> set (endpoints (main w))"
    by (auto simp: endpoints_main r split: option.splits sum.splits list.splits)
  show "length (filter (\<lambda>ep. ep = Purchase) (endpoints (main w))) \<le> 1"
    by (auto simp: endpoints_main r split: option.splits sum.splits list.splits)
next
  assume "Purchase \<in> set (endpoints (main w))"
  from main_to_submit_payment [OF this] obtain pre key j where
    m: "main w = pre @ submit_payment w key j"
    by blast
  show "\<exists>pre key j. main w =
          pre @
          [purchase_request w key j,
           PrintError [Lit ''Payment failed: '', Exn (HTTPError st)],
           PrintError [Lit ''Response: '', Lit txt],
           PrintWarning [Lit ''Possible issues:''],
           Print [Lit ''  - Insufficient test ADA in wallet''],
           Print [Lit ''  - Wallet not registered properly''],
           Print [Lit ''  - Invalid API key'']]"
    apply (rule exI [of _ "pre @
          [PrintHeader [Lit ''Step 3: Making Real Blockchain Payment from Your Wallet''],
           PrintInfo [Lit ''Initiating payment from your testnet wallet...''],
           PrintInfo [Lit ''Paying '', Amount (amount_ada j), Lit '' ADA to smart contract...'']]"])
    apply (rule exI [of _ key])
    apply (rule exI [of _ j])
    apply (simp add: m submit_payment_rejected [OF assms])
    done
qed

theorem rejected_payment_aborts_run_witness:
  "purchase rejected_world = Response 402 rejected_body None \<and>
   http_error 402 \<and>
   sublist ''insufficient funds'' rejected_body \<and>
   PrintError [Lit ''Response: '', Lit rejected_body] \<in> set (main rejected_world) \<and>
   last (main rejected_world) = Print [Lit ''  - Invalid API key''] \<and>
   endpoints (main rejected_world) = [Availability, StartJob, Purchase]"
proof -
  have p: "purchase rejected_world = Response 402 rejected_body None"
    by (simp add: rejected_world_def)
  have h: "http_error 402"
    by (simp add: http_error_def)
  have "Purchase \<in> set (endpoints (main rejected_world))"
    by (simp add: rejected_endpoints)
  with rejected_payment_aborts_run [OF p h] obtain pre key j where
    "main rejected_world =
       pre @
       [purchase_request rejected_world key j,
        PrintError [Lit ''Payment failed: '', Exn (HTTPError 402)],
        PrintError [Lit ''Response: '', Lit rejected_body],
        PrintWarning [Lit ''Possible issues:''],
        Print [Lit ''  - Insufficient test ADA in wallet''],
        Print [Lit ''  - Wallet not registered properly''],
        Print [Lit ''  - Invalid API key'']]"
    by blast
  then show ?thesis
    using p h rejected_body_text rejected_endpoints by simp
qed

section \<open>The payment descriptor (C1)\<close>

lemma job_of_details:
  assumes "job_of w job_data = Inr j"
  shows "\<exists>bid ih sv ai ut dt st pt ifp am.
           subscript job_data ''blockchainIdentifier'' = Inr bid \<and>
           subscript job_data ''input_hash'' = Inr ih \<and>
           subscript job_data ''sellerVKey'' = Inr sv \<and>
           subscript job_data ''agentIdentifier'' = Inr ai \<and>
           subscript job_data ''unlockTime'' = Inr ut \<and>
           subscript job_data ''externalDisputeUnlockTime'' = Inr dt \<and>
           subscript job_data ''submitResultTime'' = Inr st \<and>
           subscript job_data ''payByTime'' = Inr pt \<and>
           subscript job_data ''identifierFromPurchaser'' = Inr ifp \<and>
           subscript job_data ''amounts'' = Inr am \<and>
           payment_details j =
             [(''blockchainIdentifier'', bid),
              (''network'', JStr (NETWORK w)),
              (''inputHash'', ih),
              (''sellerVkey'', sv),
              (''agentIdentifier'', ai),
              (''paymentType'', JStr ''Web3CardanoV1''),
              (''unlockTime'', ut),
              (''externalDisputeUnlockTime'', dt),
              (''submitResultTime'', st),
              (''payByTime'', pt),
              (''identifierFromPurchaser'', ifp),
              (''amounts'', am)]"
proof -
  from assms obtain bid details where
    b: "subscript job_data ''blockchainIdentifier'' = Inr bid" and
    d: "build_payment_details w job_data bid = Inr details" and
    p: "payment_details j = details"
    unfolding job_of_def bind_exn_Inr by auto
  from d p b show ?thesis
    unfolding build_payment_details_def bind_exn_Inr by auto
qed

lemma example_purchase_request:
  "Request Purchase
     ''https://masumi-payment-service-production-8680.up.railway.app/api/v1/purchase''
     (JObj [(''blockchainIdentifier'', JStr ''contract-1''),
            (''network'', JStr ''Preprod''),
            (''inputHash'', JStr ''0a1b''),
            (''sellerVkey'', JStr ''vkey''),
            (''agentIdentifier'', JStr ''agent-7''),
            (''paymentType'', JStr ''Web3CardanoV1''),
            (''unlockTime'', JStr ''1700000300''),
            (''externalDisputeUnlockTime'', JStr ''1700000400''),
            (''submitResultTime'', JStr ''1700000200''),
            (''payByTime'', JStr ''1700000100''),
            (''identifierFromPurchaser'', JStr ''2ccab9ca3c8fd56f''),
            (''amounts'', JArr [JObj [(''amount'', JStr ''5000000''),
                                      (''unit'', JStr ''lovelace'')]])])
     [(''Content-Type'', ''application/json''), (''token'', ''secret'')]
   \<in> set (main example_world)"
proof -
  have "purchase_request example_world ''secret'' example_job \<in> set (main example_world)"
    using purchase_request_issued [of example_world "''secret''" example_job]
    by (simp add: main_to_request_job [OF example_stages(1) _ example_stages(2) example_stages(3)]
        request_job_created [OF example_decoded example_job_of])
  then show ?thesis
    by (simp add: purchase_request_def example_job_def PAYMENT_SERVICE_URL_def getenv_def
        example_world_def)
qed

text \<open>
  C1, as the claim states it, fails: the descriptor is not the set of fields received. In
  the run below the job-creation response has the fields of the compute service's contract;
  the descriptor that is forwarded has a \<^verbatim>\<open>network\<close> and a \<^verbatim>\<open>paymentType\<close>, which the
  response does not have (the script takes the first from its configuration and the second
  is a literal), and it names two fields \<^verbatim>\<open>inputHash\<close> and \<^verbatim>\<open>sellerVkey\<close>, which the
  response names \<^verbatim>\<open>input_hash\<close> and \<^verbatim>\<open>sellerVKey\<close>.
\<close>

theorem descriptor_differs_from_response:
  "decoded (start_job example_world) = Inr example_job_data \<and>
   Request Purchase
     ''https://masumi-payment-service-production-8680.up.railway.app/api/v1/purchase''
     (JObj [(''blockchainIdentifier'', JStr ''contract-1''),
            (''network'', JStr ''Preprod''),
            (''inputHash'', JStr ''0a1b''),
            (''sellerVkey'', JStr ''vkey''),
            (''agentIdentifier'', JStr ''agent-7''),
            (''paymentType'', JStr ''Web3CardanoV1''),
            (''unlockTime'', JStr ''1700000300''),
            (''externalDisputeUnlockTime'', JStr ''1700000400''),
            (''submitResultTime'', JStr ''1700000200''),
            (''payByTime'', JStr ''1700000100''),
            (''identifierFromPurchaser'', JStr ''2ccab9ca3c8fd56f''),
            (''amounts'', JArr [JObj [(''amount'', JStr ''5000000''),
                                      (''unit'', JStr ''lovelace'')]])])
     [(''Content-Type'', ''application/json''), (''token'', ''secret'')]
   \<in> set (main example_world) \<and>
   subscript example_job_data ''network'' = Inl (KeyError (JStr ''network'')) \<and>
   subscript example_job_data ''paymentType'' = Inl (KeyError (JStr ''paymentType'')) \<and>
   subscript example_job_data ''inputHash'' = Inl (KeyError (JStr ''inputHash'')) \<and>
   subscript example_job_data ''sellerVkey'' = Inl (KeyError (JStr ''sellerVkey''))"
  using example_decoded example_purchase_request by (simp add: example_job_data_def)

text \<open>
  C1, amended. Every purchase request of a run carries a descriptor of exactly twelve
  fields, in the order of the script. Ten of them hold, unchanged, the values that the
  job-creation response has under \<^verbatim>\<open>blockchainIdentifier\<close>, \<^verbatim>\<open>input_hash\<close> (forwarded as
  \<^verbatim>\<open>inputHash\<close>), \<^verbatim>\<open>sellerVKey\<close> (forwarded as \<^verbatim>\<open>sellerVkey\<close>), \<^verbatim>\<open>agentIdentifier\<close>,
  \<^verbatim>\<open>unlockTime\<close>, \<^verbatim>\<open>externalDisputeUnlockTime\<close>, \<^verbatim>\<open>submitResultTime\<close>, \<^verbatim>\<open>payByTime\<close>,
  \<^verbatim>\<open>identifierFromPurchaser\<close> and \<^verbatim>\<open>amounts\<close>; \<^verbatim>\<open>network\<close> is the configured network and
  \<^verbatim>\<open>paymentType\<close> is the literal \<^verbatim>\<open>Web3CardanoV1\<close>.
\<close>

theorem forwarded_payment_descriptor:
  assumes "Request Purchase url d hdrs \<in> set (main w)"
  shows "\<exists>job_data bid ih sv ai ut dt st pt ifp am.
           decoded (start_job w) = Inr job_data \<and>
           subscript job_data ''blockchainIdentifier'' = Inr bid \<and>
           subscript job_data ''input_hash'' = Inr ih \<and>
           subscript job_data ''sellerVKey'' = Inr sv \<and>
           subscript job_data ''agentIdentifier'' = Inr ai \<and>
           subscript job_data ''unlockTime'' = Inr ut \<and>
           subscript job_data ''externalDisputeUnlockTime'' = Inr dt \<and>
           subscript job_data ''submitResultTime'' = Inr st \<and>
           subscript job_data ''payByTime'' = Inr pt \<and>
           subscript job_data ''identifierFromPurchaser'' = Inr ifp \<and>
           subscript job_data ''amounts'' = Inr am \<and>
           d = JObj [(''blockchainIdentifier'', bid),
                     (''network'', JStr (NETWORK w)),
                     (''inputHash'', ih),
                     (''sellerVkey'', sv),
                     (''agentIdentifier'', ai),
                     (''paymentType'', JStr ''Web3CardanoV1''),
                     (''unlockTime'', ut),
                     (''externalDisputeUnlockTime'', dt),
                     (''submitResultTime'', st),
                     (''payByTime'', pt),
                     (''identifierFromPurchaser'', ifp),
                     (''amounts'', am)]"
proof -
  from purchase_request_origin [OF assms] obtain key j where
    j: "bind_exn (decoded (start_job w)) (job_of w) = Inr j" and
    r: "Request Purchase url d hdrs = purchase_request w key j"
    by blast
  from j obtain job_data where
    jd: "decoded (start_job w) = Inr job_data" and o: "job_of w job_data = Inr j"
    by (auto simp: bind_exn_Inr)
  from r have d: "d = JObj (payment_details j)"
    by (simp add: purchase_request_def)
  from job_of_details [OF o] jd d show ?thesis
    by metis
qed

theorem forwarded_payment_descriptor_witness:
  "Request Purchase
     ''https://masumi-payment-service-production-8680.up.railway.app/api/v1/purchase''
     (JObj [(''blockchainIdentifier'', JStr ''contract-1''),
            (''network'', JStr ''Preprod''),
            (''inputHash'', JStr ''0a1b''),
            (''sellerVkey'', JStr ''vkey''),
            (''agentIdentifier'', JStr ''agent-7''),
            (''paymentType'', JStr ''Web3CardanoV1''),
            (''unlockTime'', JStr ''1700000300''),
            (''externalDisputeUnlockTime'', JStr ''1700000400''),
            (''submitResultTime'', JStr ''1700000200''),
            (''payByTime'', JStr ''1700000100''),
            (''identifierFromPurchaser'', JStr ''2ccab9ca3c8fd56f''),
            (''amounts'', JArr [JObj [(''amount'', JStr ''5000000''),
                                      (''unit'', JStr ''lovelace'')]])])
     [(''Content-Type'', ''application/json''), (''token'', ''secret'')]
   \<in> set (main example_world) \<and>
   NETWORK example_world = ''Preprod'' \<and>
   subscript example_job_data ''input_hash'' = Inr (JStr ''0a1b'') \<and>
   subscript example_job_data ''sellerVKey'' = Inr (JStr ''vkey'') \<and>
   subscript example_job_data ''amounts'' =
     Inr (JArr [JObj [(''amount'', JStr ''5000000''), (''unit'', JStr ''lovelace'')]])"
proof -
  from forwarded_payment_descriptor [OF example_purchase_request] obtain job_data ih sv am where
    "decoded (start_job example_world) = Inr job_data" and
    "subscript job_data ''input_hash'' = Inr ih" and
    "subscript job_data ''sellerVKey'' = Inr sv" and
    "subscript job_data ''amounts'' = Inr am" and
    "JStr (NETWORK example_world) = JStr ''Preprod''" and
    "ih = JStr ''0a1b''" and "sv = JStr ''vkey''" and
    "am = JArr [JObj [(''amount'', JStr ''5000000''), (''unit'', JStr ''lovelace'')]]"
    by auto
  with example_decoded example_purchase_request show ?thesis
    by simp
qed

section \<open>The email service\<close>

lemma ServiceResult_simps [simp]:
  "recipient (ServiceResult rcp sbj ok msg) = rcp"
  "subject (ServiceResult rcp sbj ok msg) = sbj"
  "success (ServiceResult rcp sbj ok msg) = ok"
  "message (ServiceResult rcp sbj ok msg) = msg"
  by (simp_all add: ServiceResult_def)

lemma execute_task_result:
  "snd (execute_task s inp) =
     (let rcp = input_get inp ''recipient_email'';
          sbj = enhanced_subject s inp;
          bdy = enhanced_body s inp
      in if \<not> truthy rcp then ServiceResult rcp sbj False [Lit ''recipient_email is required'']
         else if \<not> truthy sbj then ServiceResult rcp sbj False [Lit ''subject is required'']
         else if \<not> truthy bdy then ServiceResult rcp sbj False [Lit ''body is required'']
         else if brevo_api_key s = [] then
           ServiceResult rcp sbj False
             [Lit ''Brevo API key not configured (BREVO_API_KEY missing)'']
         else if sender_email s = [] then
           ServiceResult rcp sbj False
             [Lit ''Sender email not configured (SENDER_EMAIL missing)'']
         else
           (case send_transac_email s rcp sbj bdy of
              Sent message_id \<Rightarrow>
                ServiceResult rcp sbj True
                  [Lit ''Email sent successfully to '', Val rcp, Lit '' (Message ID: '',
                   Lit message_id, Lit '')'']
            | ApiException m \<Rightarrow> ServiceResult rcp sbj False [Lit ''Brevo API error: '', Lit m]
            | OtherException m \<Rightarrow>
                ServiceResult rcp sbj False [Lit ''Error sending email: '', Lit m]))"
  by (simp add: execute_task_def enhanced_subject_def enhanced_body_def fail_with_def Let_def
      split: prod.splits send_result.splits)

lemma enhance_unavailable:
  "\<not> langchain_available s \<or> gemini_api_key s = [] \<or> enhanced s sbj bdy = Inl e \<Longrightarrow>
   snd (enhance_email_with_gemini s sbj bdy) = (sbj, bdy)"
  by (auto simp: enhance_email_with_gemini_def)

lemma enhanced_undecodable:
  assumes "join_keypoints sbj bdy = Inr kp" and "llm s kp sbj bdy = LlmText txt"
    and "json_loads s txt = None"
    and "case first_json_object txt of None \<Rightarrow> True | Some found \<Rightarrow> json_loads s found = None"
  shows "\<exists>e. enhanced s sbj bdy = Inl e"
  using assms by (auto simp: enhanced_def load_data_def split: option.splits)

section \<open>The enhancement step falls back to the originals (C6)\<close>

text \<open>
  C6. When LangChain is not installed, or the Gemini key is not set, or anything in the
  \<^verbatim>\<open>try\<close> of \<^verbatim>\<open>_enhance_email_with_gemini\<close> raises, the function returns the subject and
  the body it was given. An answer of the model that \<^verbatim>\<open>json.loads\<close> rejects, both as it is
  and cut down to its braces, is such a case. The failure is swallowed: \<open>execute_task\<close>
  then returns what it returns when the step is not available at all. An exception of the
  provider call is not swallowed: the result then has \<open>success = False\<close>.
\<close>

theorem enhancement_falls_back_to_originals:
  "(\<not> langchain_available s \<or> gemini_api_key s = [] \<or> enhanced s sbj bdy = Inl e \<longrightarrow>
      snd (enhance_email_with_gemini s sbj bdy) = (sbj, bdy)) \<and>
   (join_keypoints sbj bdy = Inr kp \<and> llm s kp sbj bdy = LlmText txt \<and>
    json_loads s txt = None \<and>
    (case first_json_object txt of None \<Rightarrow> True | Some found \<Rightarrow> json_loads s found = None) \<longrightarrow>
      (\<exists>e'. enhanced s sbj bdy = Inl e')) \<and>
   (\<not> langchain_available s \<or> gemini_api_key s = [] \<or>
    enhanced s (input_get inp ''subject'') (input_get inp ''body'') = Inl e \<longrightarrow>
      snd (execute_task s inp) = snd (execute_task (s\<lparr>langchain_available := False\<rparr>) inp)) \<and>
   (send_transac_email s (input_get inp ''recipient_email'') (enhanced_subject s inp)
        (enhanced_body s inp) = ApiException m \<or>
    send_transac_email s (input_get inp ''recipient_email'') (enhanced_subject s inp)
        (enhanced_body s inp) = OtherException m \<longrightarrow>
      \<not> success (snd (execute_task s inp)))"
proof (intro conjI impI)
  assume "\<not> langchain_available s \<or> gemini_api_key s = [] \<or> enhanced s sbj bdy = Inl e"
  then show "snd (enhance_email_with_gemini s sbj bdy) = (sbj, bdy)"
    by (rule enhance_unavailable)
next
  assume "join_keypoints sbj bdy = Inr kp \<and> llm s kp sbj bdy = LlmText txt \<and>
          json_loads s txt = None \<and>
          (case first_json_object txt of None \<Rightarrow> True | Some found \<Rightarrow> json_loads s found = None)"
  then show "\<exists>e'. enhanced s sbj bdy = Inl e'"
    using enhanced_undecodable by blast
next
  assume a: "\<not> langchain_available s \<or> gemini_api_key s = [] \<or>
             enhanced s (input_get inp ''subject'') (input_get inp ''body'') = Inl e"
  have "snd (enhance_email_with_gemini s (input_get inp ''subject'') (input_get inp ''body'')) =
          (input_get inp ''subject'', input_get inp ''body'')"
    using a by (rule enhance_unavailable)
  moreover have "snd (enhance_email_with_gemini (s\<lparr>langchain_available := False\<rparr>)
                        (input_get inp ''subject'') (input_get inp ''body'')) =
                   (input_get inp ''subject'', input_get inp ''body'')"
    by (simp add: enhance_unavailable)
  ultimately show "snd (execute_task s inp) =
                     snd (execute_task (s\<lparr>langchain_available := False\<rparr>) inp)"
    by (simp add: execute_task_result enhanced_subject_def enhanced_body_def Let_def)
next
  assume "send_transac_email s (input_get inp ''recipient_email'') (enhanced_subject s inp)
            (enhanced_body s inp) = ApiException m \<or>
          send_transac_email s (input_get inp ''recipient_email'') (enhanced_subject s inp)
            (enhanced_body s inp) = OtherException m"
  then show "\<not> success (snd (execute_task s inp))"
    by (auto simp: execute_task_result Let_def)
qed

lemma chatty_enhanced:
  "enhanced chatty_service (JStr ''Monday'') (JStr ''See you on Monday.'') = Inl JSONDecodeError"
  by (simp add: enhanced_def chatty_service_def gemini_service_def plain_service_def
      load_data_def first_json_object_def gemini_reply_def)

theorem enhancement_falls_back_to_originals_witness:
  "langchain_available chatty_service \<and> gemini_api_key chatty_service = ''AIza-1'' \<and>
   llm chatty_service (''Monday'' @ [CHR 0x0A] @ ''See you on Monday.'') (JStr ''Monday'')
     (JStr ''See you on Monday.'') = LlmText ''Sorry, I cannot help with that.'' \<and>
   json_loads chatty_service ''Sorry, I cannot help with that.'' = None \<and>
   first_json_object ''Sorry, I cannot help with that.'' = None \<and>
   enhanced chatty_service (JStr ''Monday'') (JStr ''See you on Monday.'') = Inl JSONDecodeError \<and>
   snd (enhance_email_with_gemini chatty_service (JStr ''Monday'') (JStr ''See you on Monday.'')) =
     (JStr ''Monday'', JStr ''See you on Monday.'') \<and>
   snd (execute_task chatty_service alice_input) =
     snd (execute_task (chatty_service\<lparr>langchain_available := False\<rparr>) alice_input) \<and>
   success (snd (execute_task chatty_service alice_input)) \<and>
   send_transac_email bounced_service (input_get alice_input ''recipient_email'')
     (enhanced_subject bounced_service alice_input) (enhanced_body bounced_service alice_input) =
     ApiException ''(401) Unauthorized'' \<and>
   \<not> success (snd (execute_task bounced_service alice_input))"
proof -
  have cfg: "langchain_available chatty_service" "gemini_api_key chatty_service = ''AIza-1''"
    "llm chatty_service (''Monday'' @ [CHR 0x0A] @ ''See you on Monday.'') (JStr ''Monday'')
       (JStr ''See you on Monday.'') = LlmText ''Sorry, I cannot help with that.''"
    "json_loads chatty_service ''Sorry, I cannot help with that.'' = None"
    "first_json_object ''Sorry, I cannot help with that.'' = None"
    by (simp_all add: chatty_service_def gemini_service_def plain_service_def
        first_json_object_def gemini_reply_def)
  have inp: "input_get alice_input ''subject'' = JStr ''Monday''"
    "input_get alice_input ''body'' = JStr ''See you on Monday.''"
    "input_get alice_input ''recipient_email'' = JStr ''alice@example.com''"
    by (simp_all add: input_get_def alice_input_def)
  have b: "send_transac_email bounced_service (input_get alice_input ''recipient_email'')
             (enhanced_subject bounced_service alice_input)
             (enhanced_body bounced_service alice_input) = ApiException ''(401) Unauthorized''"
    by (simp add: bounced_service_def)
  note c = enhancement_falls_back_to_originals
    [of chatty_service "JStr ''Monday''" "JStr ''See you on Monday.''" JSONDecodeError
      "''Monday'' @ [CHR 0x0A] @ ''See you on Monday.''" "''Sorry, I cannot help with that.''"
      alice_input]
  note d = enhancement_falls_back_to_originals
    [of bounced_service _ _ _ _ _ alice_input "''(401) Unauthorized''"]
  have fb: "snd (enhance_email_with_gemini chatty_service (JStr ''Monday'')
                   (JStr ''See you on Monday.'')) = (JStr ''Monday'', JStr ''See you on Monday.'')"
    using c chatty_enhanced by blast
  have sw: "snd (execute_task chatty_service alice_input) =
              snd (execute_task (chatty_service\<lparr>langchain_available := False\<rparr>) alice_input)"
    using c chatty_enhanced by (simp add: inp)
  have prov: "brevo_api_key chatty_service = ''xkeysib-1''"
    "sender_email chatty_service = ''noreply@example.com''"
    "send_transac_email chatty_service = (\<lambda>rcp sbj bdy. Sent ''<202611031200.1@smtp-relay>'')"
    by (simp_all add: chatty_service_def gemini_service_def plain_service_def)
  have ok: "success (snd (execute_task chatty_service alice_input))"
    by (simp add: execute_task_result enhanced_subject_def enhanced_body_def inp fb prov Let_def)
  have no: "\<not> success (snd (execute_task bounced_service alice_input))"
    using d b by blast
  from cfg chatty_enhanced fb sw ok b no show ?thesis
    by blast
qed

section \<open>The result of \<open>execute_task\<close> (C10)\<close>

text \<open>
  C10, as the claim states it, fails where it says that a missing subject or body produces
  a failure: the inputs are validated after the enhancement step, which is given the
  missing subject as something to write. In the run below the input has no subject, the
  model supplies one, and the email is sent: the result has \<open>success = True\<close>.
\<close>

theorem missing_subject_can_succeed:
  "map_of bob_input ''subject'' = None \<and>
   input_get bob_input ''subject'' = JStr [] \<and>
   success (snd (execute_task gemini_service bob_input)) \<and>
   subject (snd (execute_task gemini_service bob_input)) = JStr ''Hello Bob''"
proof -
  have inp: "input_get bob_input ''subject'' = JStr []"
    "input_get bob_input ''body'' = JStr ''Tell Bob about Monday''"
    "input_get bob_input ''recipient_email'' = JStr ''bob@example.com''"
    by (simp_all add: input_get_def bob_input_def)
  have cfg: "langchain_available gemini_service" "gemini_api_key gemini_service = ''AIza-1''"
    "chain_setup gemini_service = None"
    "llm gemini_service = (\<lambda>keypoints sbj bdy. LlmText gemini_reply)"
    "json_loads gemini_service gemini_reply =
       Some (JObj [(''subject'', JStr ''Hello Bob''),
                   (''body'', JStr ''Dear Bob, see you on Monday.'')])"
    "brevo_api_key gemini_service = ''xkeysib-1''"
    "sender_email gemini_service = ''noreply@example.com''"
    "send_transac_email gemini_service = (\<lambda>rcp sbj bdy. Sent ''<202611031200.1@smtp-relay>'')"
    by (simp_all add: gemini_service_def plain_service_def)
  have e: "enhanced gemini_service (JStr []) (JStr ''Tell Bob about Monday'') =
             Inr (JStr ''Hello Bob'', JStr ''Dear Bob, see you on Monday.'')"
    by (simp add: enhanced_def cfg load_data_def py_or_def strip_def is_space_def)
  have "snd (enhance_email_with_gemini gemini_service (JStr []) (JStr ''Tell Bob about Monday'')) =
          (JStr ''Hello Bob'', JStr ''Dear Bob, see you on Monday.'')"
    by (simp add: enhance_email_with_gemini_def cfg e)
  then show ?thesis
    by (simp add: execute_task_result enhanced_subject_def enhanced_body_def inp cfg Let_def)
      (simp add: bob_input_def)
qed

text \<open>
  C10, amended. \<open>execute_task\<close> returns a result for every input dictionary; every
  exception that its steps can raise is a case of the function (those of the enhancement
  step end in the fallback, those of the provider call in a failed result). With the
  subject and the body as they are after the enhancement step, which are the caller's
  whenever the step is unavailable or fails, the result has \<open>success = False\<close> and names
  the first cause that applies, in this order: no recipient, no subject, no body, no Brevo
  API key, no sender email, an \<^verbatim>\<open>ApiException\<close> of the provider call, any other exception of
  it. The result has \<open>success = True\<close> exactly when none applies, that is when all five
  checks pass and the provider call returns.
\<close>

theorem execute_task_names_the_cause:
  "(\<not> truthy (input_get inp ''recipient_email'') \<longrightarrow>
      \<not> success (snd (execute_task s inp)) \<and>
      message (snd (execute_task s inp)) = [Lit ''recipient_email is required'']) \<and>
   (truthy (input_get inp ''recipient_email'') \<and> \<not> truthy (enhanced_subject s inp) \<longrightarrow>
      \<not> success (snd (execute_task s inp)) \<and>
      message (snd (execute_task s inp)) = [Lit ''subject is required'']) \<and>
   (truthy (input_get inp ''recipient_email'') \<and> truthy (enhanced_subject s inp) \<and>
    \<not> truthy (enhanced_body s inp) \<longrightarrow>
      \<not> success (snd (execute_task s inp)) \<and>
      message (snd (execute_task s inp)) = [Lit ''body is required'']) \<and>
   (truthy (input_get inp ''recipient_email'') \<and> truthy (enhanced_subject s inp) \<and>
    truthy (enhanced_body s inp) \<and> brevo_api_key s = [] \<longrightarrow>
      \<not> success (snd (execute_task s inp)) \<and>
      message (snd (execute_task s inp)) =
        [Lit ''Brevo API key not configured (BREVO_API_KEY missing)'']) \<and>
   (truthy (input_get inp ''recipient_email'') \<and> truthy (enhanced_subject s inp) \<and>
    truthy (enhanced_body s inp) \<and> brevo_api_key s \<noteq> [] \<and> sender_email s = [] \<longrightarrow>
      \<not> success (snd (execute_task s inp)) \<and>
      message (snd (execute_task s inp)) =
        [Lit ''Sender email not configured (SENDER_EMAIL missing)'']) \<and>
   (truthy (input_get inp ''recipient_email'') \<and> truthy (enhanced_subject s inp) \<and>
    truthy (enhanced_body s inp) \<and> brevo_api_key s \<noteq> [] \<and> sender_email s \<noteq> [] \<and>
    send_transac_email s (input_get inp ''recipient_email'') (enhanced_subject s inp)
      (enhanced_body s inp) = ApiException m \<longrightarrow>
      \<not> success (snd (execute_task s inp)) \<and>
      message (snd (execute_task s inp)) = [Lit ''Brevo API error: '', Lit m]) \<and>
   (truthy (input_get inp ''recipient_email'') \<and> truthy (enhanced_subject s inp) \<and>
    truthy (enhanced_body s inp) \<and> brevo_api_key s \<noteq> [] \<and> sender_email s \<noteq> [] \<and>
    send_transac_email s (input_get inp ''recipient_email'') (enhanced_subject s inp)
      (enhanced_body s inp) = OtherException m \<longrightarrow>
      \<not> success (snd (execute_task s inp)) \<and>
      message (snd (execute_task s inp)) = [Lit ''Error sending email: '', Lit m]) \<and>
   (success (snd (execute_task s inp)) \<longleftrightarrow>
      truthy (input_get inp ''recipient_email'') \<and> truthy (enhanced_subject s inp) \<and>
      truthy (enhanced_body s inp) \<and> brevo_api_key s \<noteq> [] \<and> sender_email s \<noteq> [] \<and>
      (\<exists>message_id. send_transac_email s (input_get inp ''recipient_email'')
                       (enhanced_subject s inp) (enhanced_body s inp) = Sent message_id)) \<and>
   (\<not> langchain_available s \<or> gemini_api_key s = [] \<or>
    enhanced s (input_get inp ''subject'') (input_get inp ''body'') = Inl e \<longrightarrow>
      enhanced_subject s inp = input_get inp ''subject'' \<and>
      enhanced_body s inp = input_get inp ''body'')"
proof -
  have fallback:
    "enhanced_subject s inp = input_get inp ''subject'' \<and>
     enhanced_body s inp = input_get inp ''body''"
    if "\<not> langchain_available s \<or> gemini_api_key s = [] \<or>
        enhanced s (input_get inp ''subject'') (input_get inp ''body'') = Inl e"
    using enhance_unavailable [OF that] by (simp add: enhanced_subject_def enhanced_body_def)
  have sent:
    "success (snd (execute_task s inp)) \<longleftrightarrow>
       truthy (input_get inp ''recipient_email'') \<and> truthy (enhanced_subject s inp) \<and>
       truthy (enhanced_body s inp) \<and> brevo_api_key s \<noteq> [] \<and> sender_email s \<noteq> [] \<and>
       (\<exists>message_id. send_transac_email s (input_get inp ''recipient_email'')
                        (enhanced_subject s inp) (enhanced_body s inp) = Sent message_id)"
    by (simp add: execute_task_result Let_def split: send_result.splits)
  show ?thesis
    apply (intro conjI impI)
    using fallback sent apply (simp_all add: execute_task_result Let_def)
    done
qed

theorem execute_task_names_the_cause_witness:
  "truthy (input_get bob_input ''recipient_email'') \<and>
   \<not> truthy (enhanced_subject plain_service bob_input) \<and>
   \<not> success (snd (execute_task plain_service bob_input)) \<and>
   message (snd (execute_task plain_service bob_input)) = [Lit ''subject is required''] \<and>
   send_transac_email bounced_service (input_get alice_input ''recipient_email'')
     (enhanced_subject bounced_service alice_input) (enhanced_body bounced_service alice_input) =
     ApiException ''(401) Unauthorized'' \<and>
   message (snd (execute_task bounced_service alice_input)) =
     [Lit ''Brevo API error: '', Lit ''(401) Unauthorized''] \<and>
   success (snd (execute_task plain_service alice_input))"
proof -
  have off: "\<not> langchain_available plain_service" "\<not> langchain_available bounced_service"
    by (simp_all add: plain_service_def bounced_service_def)
  have bob: "truthy (input_get bob_input ''recipient_email'')"
    "input_get bob_input ''subject'' = JStr []"
    by (simp_all add: input_get_def bob_input_def)
  have alice: "truthy (input_get alice_input ''recipient_email'')"
    "truthy (input_get alice_input ''subject'')" "truthy (input_get alice_input ''body'')"
    by (simp_all add: input_get_def alice_input_def)
  have cfg: "brevo_api_key bounced_service \<noteq> []" "sender_email bounced_service \<noteq> []"
    "brevo_api_key plain_service \<noteq> []" "sender_email plain_service \<noteq> []"
    "send_transac_email bounced_service = (\<lambda>rcp sbj bdy. ApiException ''(401) Unauthorized'')"
    "send_transac_email plain_service = (\<lambda>rcp sbj bdy. Sent ''<202611031200.1@smtp-relay>'')"
    by (simp_all add: plain_service_def bounced_service_def)
  note b = execute_task_names_the_cause [of bob_input plain_service]
  note a = execute_task_names_the_cause [of alice_input bounced_service "''(401) Unauthorized''"]
  note p = execute_task_names_the_cause [of alice_input plain_service]
  have sb: "enhanced_subject plain_service bob_input = JStr []"
    using b off bob by simp
  have ea: "enhanced_subject bounced_service alice_input = input_get alice_input ''subject''"
    "enhanced_body bounced_service alice_input = input_get alice_input ''body''"
    "enhanced_subject plain_service alice_input = input_get alice_input ''subject''"
    "enhanced_body plain_service alice_input = input_get alice_input ''body''"
    using a p off by simp_all
  have r1: "\<not> success (snd (execute_task plain_service bob_input)) \<and>
            message (snd (execute_task plain_service bob_input)) = [Lit ''subject is required'']"
    using b bob sb by simp
  have r2: "message (snd (execute_task bounced_service alice_input)) =
              [Lit ''Brevo API error: '', Lit ''(401) Unauthorized'']"
    using a alice ea cfg by simp
  have r3: "success (snd (execute_task plain_service alice_input))"
    using p alice ea cfg by simp
  from bob sb r1 r2 r3 cfg show ?thesis
    by simp
qed

end
